theory Spec2Isabelle
  imports Complex_Main "HOL-Library.Log_Nat"
begin

section \<open>JavaScript numbers\<close>

text \<open>
  The prediction generator computes with JavaScript numbers. A number is modelled as a
  finite value, one of the two infinities, or NaN. The operators of this section compute a
  finite result as an exact real, without rounding or overflow, and take every zero as
  positive zero. They model everything the control flow of the analysis depends on: a
  division by zero yields an infinity or NaN, NaN propagates through arithmetic,
  \<open>Math.max\<close> and \<open>Math.min\<close>, and every comparison with NaN is false. The rounding of
  IEEE-754 doubles is modelled in the next section, for the sums of the fallback
  prediction, whose bounds it decides.
\<close>

datatype jsnum = Fin real | PInf | NInf | NaN

fun jneg :: "jsnum \<Rightarrow> jsnum" where
  "jneg (Fin a) = Fin (- a)"
| "jneg PInf = NInf"
| "jneg NInf = PInf"
| "jneg NaN = NaN"

fun jadd :: "jsnum \<Rightarrow> jsnum \<Rightarrow> jsnum" where
  "jadd (Fin a) (Fin b) = Fin (a + b)"
| "jadd (Fin a) PInf = PInf"
| "jadd (Fin a) NInf = NInf"
| "jadd PInf (Fin b) = PInf"
| "jadd PInf PInf = PInf"
| "jadd PInf NInf = NaN"
| "jadd NInf (Fin b) = NInf"
| "jadd NInf NInf = NInf"
| "jadd NInf PInf = NaN"
| "jadd NaN b = NaN"
| "jadd a NaN = NaN"

definition jsub :: "jsnum \<Rightarrow> jsnum \<Rightarrow> jsnum" where
  "jsub a b = jadd a (jneg b)"

fun jmul :: "jsnum \<Rightarrow> jsnum \<Rightarrow> jsnum" where
  "jmul (Fin a) (Fin b) = Fin (a * b)"
| "jmul (Fin a) PInf = (if a = 0 then NaN else if 0 < a then PInf else NInf)"
| "jmul (Fin a) NInf = (if a = 0 then NaN else if 0 < a then NInf else PInf)"
| "jmul PInf (Fin b) = (if b = 0 then NaN else if 0 < b then PInf else NInf)"
| "jmul NInf (Fin b) = (if b = 0 then NaN else if 0 < b then NInf else PInf)"
| "jmul PInf PInf = PInf"
| "jmul PInf NInf = NInf"
| "jmul NInf PInf = NInf"
| "jmul NInf NInf = PInf"
| "jmul NaN b = NaN"
| "jmul a NaN = NaN"

fun jdiv :: "jsnum \<Rightarrow> jsnum \<Rightarrow> jsnum" where
  "jdiv (Fin a) (Fin b) =
     (if b \<noteq> 0 then Fin (a / b)
      else if a = 0 then NaN else if 0 < a then PInf else NInf)"
| "jdiv (Fin a) PInf = Fin 0"
| "jdiv (Fin a) NInf = Fin 0"
| "jdiv PInf (Fin b) = (if 0 \<le> b then PInf else NInf)"
| "jdiv NInf (Fin b) = (if 0 \<le> b then NInf else PInf)"
| "jdiv PInf PInf = NaN"
| "jdiv PInf NInf = NaN"
| "jdiv NInf PInf = NaN"
| "jdiv NInf NInf = NaN"
| "jdiv NaN b = NaN"
| "jdiv a NaN = NaN"

text \<open>\<open>a < b\<close>; false as soon as one side is NaN. \<open>a > b\<close> is \<open>jlt b a\<close>.\<close>

fun jlt :: "jsnum \<Rightarrow> jsnum \<Rightarrow> bool" where
  "jlt (Fin a) (Fin b) = (a < b)"
| "jlt (Fin a) PInf = True"
| "jlt NInf (Fin b) = True"
| "jlt NInf PInf = True"
| "jlt a b = False"

definition jgt :: "jsnum \<Rightarrow> jsnum \<Rightarrow> bool" where
  "jgt a b = jlt b a"

text \<open>\<open>Math.max(a, b)\<close> and \<open>Math.min(a, b)\<close>: NaN if either argument is NaN.\<close>

definition jmax :: "jsnum \<Rightarrow> jsnum \<Rightarrow> jsnum" where
  "jmax a b = (if a = NaN \<or> b = NaN then NaN else if jlt a b then b else a)"

definition jmin :: "jsnum \<Rightarrow> jsnum \<Rightarrow> jsnum" where
  "jmin a b = (if a = NaN \<or> b = NaN then NaN else if jlt b a then b else a)"

text \<open>\<open>Math.max(...xs)\<close> is \<open>-Infinity\<close> and \<open>Math.min(...xs)\<close> is \<open>Infinity\<close> on no
  arguments.\<close>

definition jmax_list :: "jsnum list \<Rightarrow> jsnum" where
  "jmax_list xs = foldl jmax NInf xs"

definition jmin_list :: "jsnum list \<Rightarrow> jsnum" where
  "jmin_list xs = foldl jmin PInf xs"

fun jabs :: "jsnum \<Rightarrow> jsnum" where
  "jabs (Fin a) = Fin \<bar>a\<bar>"
| "jabs PInf = PInf"
| "jabs NInf = PInf"
| "jabs NaN = NaN"

fun jsqrt :: "jsnum \<Rightarrow> jsnum" where
  "jsqrt (Fin a) = (if a < 0 then NaN else Fin (sqrt a))"
| "jsqrt PInf = PInf"
| "jsqrt NInf = NaN"
| "jsqrt NaN = NaN"

text \<open>\<open>Math.pow(x, 2)\<close>.\<close>

fun jpow2 :: "jsnum \<Rightarrow> jsnum" where
  "jpow2 (Fin a) = Fin (a * a)"
| "jpow2 PInf = PInf"
| "jpow2 NInf = PInf"
| "jpow2 NaN = NaN"

text \<open>Truthiness of a number: zero and NaN are falsy.\<close>

fun truthy :: "jsnum \<Rightarrow> bool" where
  "truthy (Fin a) = (a \<noteq> 0)"
| "truthy PInf = True"
| "truthy NInf = True"
| "truthy NaN = False"

text \<open>
  \<open>Number(x.toFixed(2))\<close>. \<open>toFixed\<close> takes the integer \<open>n\<close> with \<open>n / 100\<close> closest to
  the magnitude of \<open>x\<close>, the larger one on a tie, and keeps the sign; from \<open>1e21\<close> on it
  prints the number as it is, and NaN and the infinities print as themselves.
\<close>

fun toFixed2 :: "jsnum \<Rightarrow> jsnum" where
  "toFixed2 (Fin a) =
     (if 10 ^ 21 \<le> \<bar>a\<bar> then Fin a
      else if a < 0 then Fin (- (of_int \<lfloor>- a * 100 + 1 / 2\<rfloor> / 100))
      else Fin (of_int \<lfloor>a * 100 + 1 / 2\<rfloor> / 100))"
| "toFixed2 PInf = PInf"
| "toFixed2 NInf = NInf"
| "toFixed2 NaN = NaN"

section \<open>Rounding to doubles\<close>

text \<open>
  A double has a significand of 53 bits. \<open>expo x\<close> is the exponent \<open>e\<close> of the binade of
  \<open>x\<close>, with \<open>2^e \<le> |x| < 2^(e+1)\<close>, computed from the bit length of the integer part of
  \<open>|x|\<close> or of \<open>1 / |x|\<close>.
\<close>

definition expo :: "real \<Rightarrow> int" where
  "expo x =
     (let a = \<bar>x\<bar> in
      if 1 \<le> a then bitlen \<lfloor>a\<rfloor> - 1
      else let k = bitlen \<lfloor>1 / a\<rfloor> - 1
           in if a * 2 powi k = 1 then - k else - k - 1)"

text \<open>The nearest integer, the even one on a tie.\<close>

definition rne :: "real \<Rightarrow> int" where
  "rne q =
     (let n = \<lfloor>q\<rfloor>; f = q - of_int n in
      if f < 1 / 2 then n
      else if 1 / 2 < f then n + 1
      else if even n then n else n + 1)"

text \<open>
  Round to nearest, ties to even: \<open>x\<close> is rounded to a multiple of the spacing of the
  doubles of its binade, \<open>2^(e-52)\<close>, where the exponent is at least -1022 (below that the
  doubles are subnormal and keep the spacing \<open>2^(-1074)\<close>).
\<close>

definition nearest_double :: "real \<Rightarrow> real" where
  "nearest_double x =
     (if x = 0 then 0
      else let u = 2 powi (max (expo x) (- 1022) - 52)
           in of_int (rne (x / u)) * u)"

text \<open>The result of an operation on doubles: a rounded value from \<open>2^1024\<close> on is infinite.\<close>

definition double_of :: "real \<Rightarrow> jsnum" where
  "double_of x =
     (let y = nearest_double x in
      if 2 powi 1024 \<le> \<bar>y\<bar> then (if 0 < y then PInf else NInf) else Fin y)"

text \<open>A real number is a double when rounding leaves it as it is.\<close>

definition is_double :: "real \<Rightarrow> bool" where
  "is_double x = (nearest_double x = x)"

text \<open>\<open>a + b\<close> and \<open>a * b\<close> on doubles, rounded.\<close>

definition jadd_double :: "jsnum \<Rightarrow> jsnum \<Rightarrow> jsnum" where
  "jadd_double a b = (case jadd a b of Fin x \<Rightarrow> double_of x | y \<Rightarrow> y)"

definition jmul_double :: "jsnum \<Rightarrow> jsnum \<Rightarrow> jsnum" where
  "jmul_double a b = (case jmul a b of Fin x \<Rightarrow> double_of x | y \<Rightarrow> y)"

section \<open>Strings\<close>

definition digit_char :: "nat \<Rightarrow> char" where
  "digit_char d = char_of (48 + d)"

fun digits :: "nat \<Rightarrow> string" where
  "digits n = (if n < 10 then [digit_char n] else digits (n div 10) @ [digit_char (n mod 10)])"

declare digits.simps [simp del]

text \<open>\<open>parts.join(sep)\<close>.\<close>

fun join :: "string \<Rightarrow> string list \<Rightarrow> string" where
  "join sep [] = []"
| "join sep [x] = x"
| "join sep (x # y # ys) = x @ sep @ join sep (y # ys)"

text \<open>\<open>s.toUpperCase()\<close> on ASCII text.\<close>

definition toUpperCase :: "string \<Rightarrow> string" where
  "toUpperCase s =
     map (\<lambda>c. if 97 \<le> (of_char c :: nat) \<and> (of_char c :: nat) \<le> 122
               then char_of ((of_char c :: nat) - 32) else c) s"

text \<open>
  \<open>x.toFixed(0)\<close> as text: the magnitude rounded to the nearest integer (the larger one on
  a tie) behind the sign of \<open>x\<close>. JavaScript switches to exponent notation from \<open>1e21\<close>
  on; the generator only formats percentages of at most 95, and that notation is not
  modelled.
\<close>

fun toFixed0 :: "jsnum \<Rightarrow> string" where
  "toFixed0 (Fin a) =
     (if a < 0 then ''-'' @ digits (nat \<lfloor>- a + 1 / 2\<rfloor>) else digits (nat \<lfloor>a + 1 / 2\<rfloor>))"
| "toFixed0 PInf = ''Infinity''"
| "toFixed0 NInf = ''-Infinity''"
| "toFixed0 NaN = ''NaN''"

section \<open>Candles\<close>

text \<open>
  A candle as \<open>normalizeOHLCData\<close> builds it. The volume may be missing from the object
  (\<open>None\<close>): the volume indicator reads it behind \<open>d.volume &&\<close> and \<open>d.volume || 0\<close>.
\<close>

record candle =
  timestamp :: int
  open' :: jsnum
  high :: jsnum
  low :: jsnum
  close :: jsnum
  volume :: "jsnum option"

text \<open>\<open>xs.slice(-n)\<close> and \<open>xs.slice(-a, -b)\<close>.\<close>

definition slice_last :: "nat \<Rightarrow> 'a list \<Rightarrow> 'a list" where
  "slice_last n xs = drop (length xs - n) xs"

definition slice_back :: "nat \<Rightarrow> nat \<Rightarrow> 'a list \<Rightarrow> 'a list" where
  "slice_back a b xs = drop (length xs - a) (take (length xs - b) xs)"

section \<open>Indicators\<close>

text \<open>
  Every indicator returns an object with a \<open>signal\<close> in \<open>{-1, 0, 1}\<close>. The fields that
  no caller reads (\<open>shortMA\<close>, \<open>longMA\<close>, \<open>recentVolume\<close>, \<open>olderVolume\<close>) are left out.
\<close>

record signalled =
  signal :: int

record momentum_result = signalled +
  change :: jsnum

record sr_result = signalled +
  resistance :: jsnum
  support :: jsnum
  distanceToResistance :: jsnum
  distanceToSupport :: jsnum

text \<open>\<open>x > 0 ? 1 : x < 0 ? -1 : 0\<close>.\<close>

definition sign_of :: "jsnum \<Rightarrow> int" where
  "sign_of x = (if jgt x (Fin 0) then 1 else if jlt x (Fin 0) then - 1 else 0)"

definition calculateMomentum :: "candle list \<Rightarrow> momentum_result" where
  "calculateMomentum data =
     (let changes = map (\<lambda>(prev, cur). jsub (close cur) (close prev)) (zip data (tl data));
          avgChange = jdiv (foldl jadd (Fin 0) changes) (Fin (real (length changes)))
      in \<lparr>signal = sign_of avgChange, change = avgChange\<rparr>)"

definition calculateMovingAverageTrend :: "candle list \<Rightarrow> signalled" where
  "calculateMovingAverageTrend data =
     (if length data < 5 then \<lparr>signal = 0\<rparr>
      else
        let shortMA = jdiv (foldl (\<lambda>sum d. jadd sum (close d)) (Fin 0) (slice_last 3 data)) (Fin 3);
            longMA = jdiv (foldl (\<lambda>sum d. jadd sum (close d)) (Fin 0) (slice_last 5 data)) (Fin 5)
        in \<lparr>signal = (if jgt shortMA longMA then 1 else if jlt shortMA longMA then - 1 else 0)\<rparr>)"

text \<open>\<open>d.volume && d.volume > 0\<close> and \<open>d.volume || 0\<close>.\<close>

definition has_positive_volume :: "candle \<Rightarrow> bool" where
  "has_positive_volume d =
     (case volume d of None \<Rightarrow> False | Some v \<Rightarrow> truthy v \<and> jgt v (Fin 0))"

definition volume_or_zero :: "candle \<Rightarrow> jsnum" where
  "volume_or_zero d =
     (case volume d of None \<Rightarrow> Fin 0 | Some v \<Rightarrow> if truthy v then v else Fin 0)"

definition calculateVolumeTrend :: "candle list \<Rightarrow> signalled" where
  "calculateVolumeTrend data =
     (let hasVolume = list_ex has_positive_volume data in
      if \<not> hasVolume then \<lparr>signal = 0\<rparr>
      else
        let recent = slice_last 3 data;
            older = slice_back 6 3 data
        in if length older = 0 then \<lparr>signal = 0\<rparr>
           else
             let recentAvgVol = jdiv (foldl (\<lambda>sum d. jadd sum (volume_or_zero d)) (Fin 0) recent)
                                     (Fin (real (length recent)));
                 olderAvgVol = jdiv (foldl (\<lambda>sum d. jadd sum (volume_or_zero d)) (Fin 0) older)
                                    (Fin (real (length older)))
             in \<lparr>signal = (if jgt recentAvgVol (jmul olderAvgVol (Fin 1.1)) then 1
                            else if jlt recentAvgVol (jmul olderAvgVol (Fin 0.9)) then - 1
                            else 0)\<rparr>)"

definition calculateVolatility :: "candle list \<Rightarrow> jsnum" where
  "calculateVolatility data =
     (let prices = map close data;
          avgPrice = jdiv (foldl jadd (Fin 0) prices) (Fin (real (length prices)));
          variance = jdiv (foldl (\<lambda>sum price. jadd sum (jpow2 (jsub price avgPrice))) (Fin 0) prices)
                          (Fin (real (length prices)))
      in jdiv (jsqrt variance) avgPrice)"

text \<open>
  What the generator can throw: a \<open>TypeError\<close> when a property of \<open>undefined\<close> is read,
  and the \<open>Error\<close> objects that the fetch layer throws with a message.
\<close>

datatype js_error = TypeError | Error string

text \<open>
  \<open>findSupportResistance\<close> reads \<open>data[data.length - 1].close\<close>: on an empty array the
  element is \<open>undefined\<close> and the read throws.
\<close>

definition findSupportResistance :: "candle list \<Rightarrow> js_error + sr_result" where
  "findSupportResistance data =
     (let highs = map high data;
          lows = map low data
      in if data = [] then Inl TypeError
         else
           let currentPrice = close (last data);
               maxHigh = jmax_list highs;
               minLow = jmin_list lows;
               resistance = maxHigh;
               support = minLow;
               distanceToResistance = jdiv (jsub resistance currentPrice) currentPrice;
               distanceToSupport = jdiv (jsub currentPrice support) currentPrice
           in Inr \<lparr>signal = (if jlt distanceToResistance (Fin 0.02) then - 1
                             else if jlt distanceToSupport (Fin 0.02) then 1
                             else 0),
                   resistance = resistance,
                   support = support,
                   distanceToResistance = distanceToResistance,
                   distanceToSupport = distanceToSupport\<rparr>)"

section \<open>Trend analysis\<close>

record indicators =
  ind_momentum :: int
  ind_movingAverage :: int
  ind_volume :: int
  ind_volatility :: jsnum
  ind_supportResistance :: int

definition generateAnalysisText :: "indicators \<Rightarrow> string \<Rightarrow> jsnum \<Rightarrow> string" where
  "generateAnalysisText inds color confidence =
     (let parts =
            (if ind_momentum inds > 0 then [''bullish momentum'']
             else if ind_momentum inds < 0 then [''bearish momentum''] else [])
          @ (if ind_movingAverage inds > 0 then [''MA uptrend'']
             else if ind_movingAverage inds < 0 then [''MA downtrend''] else [])
          @ (if ind_volume inds > 0 then [''volume increase'']
             else if ind_volume inds < 0 then [''volume decrease''] else [])
          @ (if ind_supportResistance inds > 0 then [''near support'']
             else if ind_supportResistance inds < 0 then [''near resistance''] else []);
          analysis = (if length parts > 0 then join '', '' parts else ''mixed signals'')
      in toUpperCase color @ '' ('' @ toFixed0 (jmul confidence (Fin 100)) @ ''%): '' @ analysis)"

text \<open>
  The results share the fields \<open>color\<close>, \<open>confidence\<close>, \<open>analysis\<close> and \<open>indicators\<close>;
  \<open>indicators\<close> is missing (\<open>None\<close>) from the results built without an analysis.
\<close>

record verdict =
  color :: string
  confidence :: jsnum
  analysis :: string
  indicators :: "indicators option"

record trend = verdict +
  priceChange :: jsnum

definition analyzeTrend :: "candle list \<Rightarrow> js_error + trend" where
  "analyzeTrend priceData =
     (if length priceData < 3 then
        Inr \<lparr>color = ''green'', confidence = Fin 0.5, analysis = ''Insufficient data'',
             indicators = None, priceChange = Fin 0\<rparr>
      else
        let recent = slice_last 10 priceData;
            momentum = calculateMomentum recent;
            maTrend = calculateMovingAverageTrend recent;
            volumeTrend = calculateVolumeTrend recent;
            volatility = calculateVolatility recent
        in case findSupportResistance recent of
             Inl e \<Rightarrow> Inl e
           | Inr supportResistance \<Rightarrow>
               let inds = \<lparr>ind_momentum = signal momentum,
                           ind_movingAverage = signal maTrend,
                           ind_volume = signal volumeTrend,
                           ind_volatility = volatility,
                           ind_supportResistance = signal supportResistance\<rparr>;
                   signals = filter (\<lambda>s. s \<noteq> 0)
                               [signal momentum, signal maTrend, signal volumeTrend,
                                signal supportResistance];
                   bullishCount = length (filter (\<lambda>s. s > 0) signals);
                   bearishCount = length (filter (\<lambda>s. s < 0) signals);
                   color = (if bullishCount > bearishCount then ''green'' else ''red'');
                   totalSignals = length signals;
                   agreement = jdiv (jabs (jsub (Fin (real bullishCount)) (Fin (real bearishCount))))
                                    (Fin (real totalSignals));
                   volatilityFactor = jmax (Fin 0.1) (jsub (Fin 1) (jmul volatility (Fin 2)));
                   confidence = jmin (Fin 0.95) (jmax (Fin 0.55)
                                  (jadd (jadd (Fin 0.6) (jmul agreement (Fin 0.25)))
                                        (jmul volatilityFactor (Fin 0.15))))
               in Inr \<lparr>color = color, confidence = toFixed2 confidence,
                       analysis = generateAnalysisText inds color confidence,
                       indicators = Some inds, priceChange = change momentum\<rparr>)"

section \<open>Normalising the fetched data\<close>

text \<open>
  An item of the OHLC payload is \<open>[ms, open, high, low, close]\<close>: the time in
  milliseconds, an integer, and four numbers, on which \<open>parseFloat\<close> is the identity.
  \<open>Math.floor(item[0] / 1000)\<close> is integer division. The array sort is stable and the
  comparator \<open>a.timestamp - b.timestamp\<close> orders by timestamp.
\<close>

type_synonym ohlc_item = "int \<times> jsnum \<times> jsnum \<times> jsnum \<times> jsnum"

definition normalizeOHLCData :: "ohlc_item list \<Rightarrow> candle list" where
  "normalizeOHLCData ohlcData =
     sort_key candle.timestamp
       (map (\<lambda>(t, oo, h, l, c).
               \<lparr>candle.timestamp = t div 1000, open' = oo, high = h, low = l, close = c,
                volume = Some (Fin 0)\<rparr>) ohlcData)"

text \<open>
  \<open>fetchOHLCData\<close>, given what the HTTP layer produced: an error (the request failed
  or the status was not OK) or the parsed payload. An empty payload is an error.
\<close>

definition fetchOHLCData :: "js_error + ohlc_item list \<Rightarrow> js_error + candle list" where
  "fetchOHLCData response =
     (case response of
        Inl e \<Rightarrow> Inl e
      | Inr data \<Rightarrow>
          if length data = 0 then Inl (Error ''No OHLC data available'')
          else Inr (normalizeOHLCData data))"

section \<open>Object literals indexed by the interval\<close>

text \<open>
  \<open>volatilityMultiplier[interval]\<close> and \<open>intervalSeconds[interval]\<close> index an object
  literal with a string the caller chose. The lookup finds the literal's own properties,
  then the properties every object inherits from \<open>Object.prototype\<close>, which are functions
  (\<open>__proto__\<close> is the prototype object itself), and is \<open>undefined\<close> otherwise.
\<close>

datatype jsval = Undefined | Num jsnum | Obj

definition object_prototype_keys :: "string list" where
  "object_prototype_keys =
     [''constructor'', ''hasOwnProperty'', ''isPrototypeOf'', ''propertyIsEnumerable'',
      ''toLocaleString'', ''toString'', ''valueOf'', ''__proto__'',
      ''__defineGetter__'', ''__defineSetter__'', ''__lookupGetter__'', ''__lookupSetter__'']"

definition property :: "(string \<times> jsnum) list \<Rightarrow> string \<Rightarrow> jsval" where
  "property literal k =
     (case map_of literal k of
        Some v \<Rightarrow> Num v
      | None \<Rightarrow> if k \<in> set object_prototype_keys then Obj else Undefined)"

fun truthy_val :: "jsval \<Rightarrow> bool" where
  "truthy_val Undefined = False"
| "truthy_val (Num n) = truthy n"
| "truthy_val Obj = True"

text \<open>\<open>a || b\<close>, and the conversion to a number that \<open>*\<close> applies to its operands.\<close>

definition js_or :: "jsval \<Rightarrow> jsval \<Rightarrow> jsval" where
  "js_or a b = (if truthy_val a then a else b)"

fun toNumber :: "jsval \<Rightarrow> jsnum" where
  "toNumber Undefined = NaN"
| "toNumber (Num n) = n"
| "toNumber Obj = NaN"

definition volatilityMultiplier :: "(string \<times> jsnum) list" where
  "volatilityMultiplier = [(''hours'', Fin 0.025), (''days'', Fin 0.06), (''weeks'', Fin 0.12)]"

definition intervalSeconds :: "(string \<times> jsnum) list" where
  "intervalSeconds = [(''hours'', Fin 3600), (''days'', Fin 86400), (''weeks'', Fin 604800)]"

section \<open>Price prediction\<close>

record prediction = verdict +
  price :: jsnum

text \<open>
  \<open>Math.random()\<close> is a stream \<open>rnd\<close> of draws and the position \<open>k\<close> of the next one;
  the function returns the position after its draws. The fallback object draws three
  times, in the order of its fields; the analysis path draws once.

  The fallback computes \<open>0.5 + r * 0.3\<close> and \<open>45.0 + r * 10\<close> on doubles, each product
  and each sum rounded: the literal \<open>0.3\<close> is the double nearest to it, and 0.5, 45 and 10
  are doubles.
\<close>

definition generatePricePrediction ::
  "(nat \<Rightarrow> real) \<Rightarrow> nat \<Rightarrow> candle list \<Rightarrow> string \<Rightarrow> js_error + (prediction \<times> nat)" where
  "generatePricePrediction rnd k priceData interval =
     (if length priceData = 0 then
        Inr (\<lparr>color = (if jgt (Fin (rnd k)) (Fin 0.5) then ''green'' else ''red''),
              confidence = jadd_double (Fin 0.5)
                             (jmul_double (Fin (rnd (k + 1))) (double_of 0.3)),
              analysis = ''No historical data - random prediction'',
              indicators = None,
              price = jadd_double (Fin 45.0) (jmul_double (Fin (rnd (k + 2))) (Fin 10))\<rparr>,
             k + 3)
      else
        let latestCandle = last priceData in
        case analyzeTrend priceData of
          Inl e \<Rightarrow> Inl e
        | Inr trend \<Rightarrow>
            let predictedPrice = close latestCandle;
                maxChange = jmul predictedPrice
                              (toNumber (js_or (property volatilityMultiplier interval)
                                               (Num (Fin 0.025))));
                trendStrength = jdiv (jabs (priceChange trend)) predictedPrice;
                trendBias = (if color trend = ''green'' then Fin 1 else Fin (- 1));
                randomComponent =
                  jmul (jmul (jmul (jsub (Fin (rnd k)) (Fin 0.5)) (Fin 2)) maxChange) (Fin 0.4);
                trendComponent =
                  jmul (jmul (jmul maxChange (Fin 0.4)) trendBias)
                       (jmin (jmul trendStrength (Fin 15)) (Fin 1));
                confidenceComponent =
                  jmul (jmul (jmul (jmul maxChange (Fin 0.2)) trendBias)
                             (jsub (confidence trend) (Fin 0.5))) (Fin 2);
                predictedPrice' =
                  jadd predictedPrice (jadd (jadd randomComponent trendComponent) confidenceComponent);
                predictedPrice'' = jmax (Fin 0.1) predictedPrice'
            in Inr (\<lparr>color = color trend,
                     confidence = confidence trend,
                     analysis = analysis trend,
                     indicators = indicators trend,
                     price = toFixed2 predictedPrice''\<rparr>, k + 1))"

section \<open>Batches of predictions\<close>

record prediction_record = prediction +
  timestamp :: jsnum

text \<open>What \<open>getNextTimestamps\<close> read off the clock: the next aligned second of each cadence.\<close>

record next_timestamps =
  hourly :: int
  daily :: int
  weekly :: int

text \<open>
  The loop of \<open>generatePredictions\<close>: \<open>i\<close> counts up to \<open>count\<close>, every round makes one
  prediction from the same history and pushes one record.
\<close>

function generatePredictions_loop ::
  "(nat \<Rightarrow> real) \<Rightarrow> int \<Rightarrow> candle list \<Rightarrow> string \<Rightarrow> nat \<Rightarrow>
   nat \<Rightarrow> nat \<Rightarrow> prediction_record list \<Rightarrow> js_error + (prediction_record list \<times> nat)" where
  "generatePredictions_loop rnd baseTimestamp historicalData interval count i k predictions =
     (if i < count then
        let timestamp = jadd (Fin (real_of_int baseTimestamp))
                             (jmul (Fin (real i)) (toNumber (property intervalSeconds interval)))
        in case generatePricePrediction rnd k historicalData interval of
             Inl e \<Rightarrow> Inl e
           | Inr (p, k') \<Rightarrow>
               generatePredictions_loop rnd baseTimestamp historicalData interval count (i + 1) k'
                 (predictions @
                  [\<lparr>color = color p, confidence = confidence p, analysis = analysis p,
                    indicators = indicators p, price = price p, timestamp = timestamp\<rparr>])
      else Inr (predictions, k))"
  by pat_completeness auto
termination
  by (relation "measure (\<lambda>(rnd, baseTimestamp, historicalData, interval, count, i, k, predictions). count - i)") auto

declare generatePredictions_loop.simps [simp del]

text \<open>
  The price report that \<open>generatePredictions\<close> logs when \<open>getCurrentPrice\<close> returned one:
  it calls \<open>toFixed\<close> on the price and on the 24 hour change, which throws unless both are
  numbers.
\<close>

record current_price =
  cp_price :: jsval
  cp_change24h :: jsval

definition is_number :: "jsval \<Rightarrow> bool" where
  "is_number v = (case v of Num n \<Rightarrow> True | _ \<Rightarrow> False)"

definition generatePredictions ::
  "next_timestamps \<Rightarrow> js_error + ohlc_item list \<Rightarrow> current_price option \<Rightarrow> (nat \<Rightarrow> real) \<Rightarrow> nat \<Rightarrow>
   string \<Rightarrow> nat \<Rightarrow> js_error + (prediction_record list \<times> nat)" where
  "generatePredictions nextTimestamps response currentPrice rnd k interval count =
     (let baseTimestamp = (if interval = ''hours'' then hourly nextTimestamps
                           else if interval = ''days'' then daily nextTimestamps
                           else weekly nextTimestamps)
      in case fetchOHLCData response of
           Inl e \<Rightarrow> Inl e
         | Inr historicalData \<Rightarrow>
             if (case currentPrice of
                   None \<Rightarrow> False
                 | Some cp \<Rightarrow> \<not> (is_number (cp_price cp) \<and> is_number (cp_change24h cp)))
             then Inl TypeError
             else generatePredictions_loop rnd baseTimestamp historicalData interval count 0 k [])"

section \<open>The CSV file\<close>

text \<open>
  A template literal prints a number with the fewest digits that read back as the same
  double. For a whole number of hundredths below \<open>1e13\<close> these are its decimal digits
  without trailing zeros. The digits of any other finite number depend on its binary
  expansion; they are the parameter \<open>other\<close>.
\<close>

definition hundredths_string :: "nat \<Rightarrow> string" where
  "hundredths_string n =
     digits (n div 100)
     @ (if n mod 100 = 0 then []
        else ''.'' @ [digit_char (n mod 100 div 10)]
             @ (if n mod 10 = 0 then [] else [digit_char (n mod 10)]))"

fun numberToString :: "(real \<Rightarrow> string) \<Rightarrow> jsnum \<Rightarrow> string" where
  "numberToString other (Fin a) =
     (if of_int \<lfloor>a * 100\<rfloor> = a * 100 \<and> \<bar>a\<bar> < 10 ^ 13
      then (if a < 0 then ''-'' else []) @ hundredths_string (nat \<lfloor>\<bar>a\<bar> * 100\<rfloor>)
      else other a)"
| "numberToString other PInf = ''Infinity''"
| "numberToString other NInf = ''-Infinity''"
| "numberToString other NaN = ''NaN''"

definition predictionsToCSV :: "(real \<Rightarrow> string) \<Rightarrow> prediction_record list \<Rightarrow> string" where
  "predictionsToCSV other predictions =
     (let headers = ''timestamp,color,confidence,price'';
          rows = map (\<lambda>p. numberToString other (timestamp p) @ '','' @ color p @ '',''
                           @ numberToString other (confidence p) @ '',''
                           @ numberToString other (price p)) predictions
      in join [CHR 0x0A] (headers # rows))"

section \<open>Sample inputs\<close>

text \<open>
  Three candles of the same shape: every close is 100, every high 110, every low 90, no
  volume.
\<close>

definition flat_window :: "candle list" where
  "flat_window =
     [\<lparr>candle.timestamp = 1000, open' = Fin 100, high = Fin 110, low = Fin 90,
       close = Fin 100, volume = Some (Fin 0)\<rparr>,
      \<lparr>candle.timestamp = 2000, open' = Fin 100, high = Fin 110, low = Fin 90,
       close = Fin 100, volume = Some (Fin 0)\<rparr>,
      \<lparr>candle.timestamp = 3000, open' = Fin 100, high = Fin 110, low = Fin 90,
       close = Fin 100, volume = Some (Fin 0)\<rparr>]"

text \<open>The mock data of \<open>test-prediction-generator.js\<close>.\<close>

definition mockData :: "candle list" where
  "mockData =
     [\<lparr>candle.timestamp = 1000, open' = Fin 45.0, high = Fin 46.0, low = Fin 44.5,
       close = Fin 45.5, volume = Some (Fin 0)\<rparr>,
      \<lparr>candle.timestamp = 2000, open' = Fin 45.5, high = Fin 47.0, low = Fin 45.0,
       close = Fin 46.2, volume = Some (Fin 0)\<rparr>,
      \<lparr>candle.timestamp = 3000, open' = Fin 46.2, high = Fin 47.5, low = Fin 46.0,
       close = Fin 46.8, volume = Some (Fin 0)\<rparr>,
      \<lparr>candle.timestamp = 4000, open' = Fin 46.8, high = Fin 47.8, low = Fin 46.5,
       close = Fin 47.2, volume = Some (Fin 0)\<rparr>]"

text \<open>The period of a cadence, as the specification gives it.\<close>

definition cadence_period :: "string \<Rightarrow> real" where
  "cadence_period interval =
     (if interval = ''hours'' then 3600 else if interval = ''days'' then 86400 else 604800)"

text \<open>
  The first row of the CSV sample in \<open>README-predictions.md\<close>, as a prediction record:
  \<open>1704067200,red,0.85,45.50\<close>.
\<close>

definition readme_record :: prediction_record where
  "readme_record =
     \<lparr>color = ''red'', confidence = Fin 0.85, analysis = ''RED (85%): bearish momentum'',
      indicators = None, price = Fin 45.5, timestamp = Fin 1704067200\<rparr>"

text \<open>A payload of three items that arrive out of order.\<close>

definition ohlc_sample :: "ohlc_item list" where
  "ohlc_sample =
     [(1704074400000, Fin 46.2, Fin 47.5, Fin 46.0, Fin 46.8),
      (1704067200000, Fin 45.0, Fin 46.0, Fin 44.5, Fin 45.5),
      (1704070800000, Fin 45.5, Fin 47.0, Fin 45.0, Fin 46.2)]"


text \<open>
  Draws that are all \<open>1 - 2^(-52)\<close>, the largest value below 1 of a generator with 52
  random bits, and draws that are all one half.
\<close>

definition high_draws :: "nat \<Rightarrow> real" where
  "high_draws n = 1 - 1 / 2 ^ 52"

definition middle_draws :: "nat \<Rightarrow> real" where
  "middle_draws n = 1 / 2"
section \<open>Arithmetic with NaN\<close>

lemma jadd_NaN_right [simp]: "jadd a NaN = NaN"
  by (cases a) simp_all

lemma jmul_NaN_right [simp]: "jmul a NaN = NaN"
  by (cases a) simp_all

lemma jdiv_NaN_right [simp]: "jdiv a NaN = NaN"
  by (cases a) simp_all

lemma jsub_NaN [simp]: "jsub a NaN = NaN" "jsub NaN a = NaN"
  by (simp_all add: jsub_def)

lemma jsub_Fin [simp]: "jsub (Fin a) (Fin b) = Fin (a - b)"
  by (simp add: jsub_def)

lemma jmax_NaN [simp]: "jmax a NaN = NaN" "jmax NaN a = NaN"
  by (simp_all add: jmax_def)

lemma jmin_NaN [simp]: "jmin a NaN = NaN" "jmin NaN a = NaN"
  by (simp_all add: jmin_def)

section \<open>The analysis never throws\<close>

lemma slice_last_nonempty:
  assumes "xs \<noteq> []" and "0 < n"
  shows "slice_last n xs \<noteq> []"
proof -
  from assms have "length xs - n < length xs" by (cases xs) auto
  then show ?thesis by (simp add: slice_last_def)
qed

lemma findSupportResistance_nonempty:
  "data \<noteq> [] \<Longrightarrow> \<exists>sr. findSupportResistance data = Inr sr"
  by (simp add: findSupportResistance_def Let_def)

lemma analyzeTrend_total: "\<exists>t. analyzeTrend priceData = Inr t"
proof (cases "length priceData < 3")
  case True
  then show ?thesis by (simp add: analyzeTrend_def)
next
  case False
  then have "priceData \<noteq> []" by auto
  then have "slice_last 10 priceData \<noteq> []" by (simp add: slice_last_nonempty)
  then obtain sr where "findSupportResistance (slice_last 10 priceData) = Inr sr"
    using findSupportResistance_nonempty by blast
  with False show ?thesis by (simp add: analyzeTrend_def Let_def)
qed

lemma generatePricePrediction_total:
  "\<exists>p. generatePricePrediction rnd k priceData interval
        = Inr (p, if priceData = [] then k + 3 else k + 1)"
proof (cases "priceData = []")
  case True
  then show ?thesis by (simp add: generatePricePrediction_def)
next
  case False
  obtain t where "analyzeTrend priceData = Inr t" using analyzeTrend_total by blast
  with False show ?thesis by (simp add: generatePricePrediction_def Let_def)
qed

section \<open>The flat window\<close>

lemma length_flat_window: "length flat_window = 3"
  by (simp add: flat_window_def)

lemma slice_flat_window: "slice_last 10 flat_window = flat_window"
  by (simp add: slice_last_def flat_window_def)

lemma calculateMomentum_flat_window:
  "calculateMomentum flat_window = \<lparr>signal = 0, change = Fin 0\<rparr>"
  by (simp add: flat_window_def calculateMomentum_def sign_of_def jgt_def)

lemma calculateMovingAverageTrend_flat_window:
  "calculateMovingAverageTrend flat_window = \<lparr>signal = 0\<rparr>"
  by (simp add: flat_window_def calculateMovingAverageTrend_def)

lemma calculateVolumeTrend_flat_window:
  "calculateVolumeTrend flat_window = \<lparr>signal = 0\<rparr>"
  by (simp add: flat_window_def calculateVolumeTrend_def has_positive_volume_def)

lemma calculateVolatility_flat_window: "calculateVolatility flat_window = Fin 0"
  by (simp add: flat_window_def calculateVolatility_def)

lemma findSupportResistance_flat_window:
  "findSupportResistance flat_window =
     Inr \<lparr>signal = 0, resistance = Fin 110, support = Fin 90,
          distanceToResistance = Fin (1 / 10), distanceToSupport = Fin (1 / 10)\<rparr>"
  by (simp add: flat_window_def findSupportResistance_def jmax_list_def jmin_list_def
      jmax_def jmin_def Let_def)

lemma generateAnalysisText_no_signal:
  "generateAnalysisText
     \<lparr>ind_momentum = 0, ind_movingAverage = 0, ind_volume = 0, ind_volatility = Fin 0,
      ind_supportResistance = 0\<rparr> ''red'' NaN = ''RED (NaN%): mixed signals''"
  by code_simp

lemma analyzeTrend_flat_window:
  "analyzeTrend flat_window =
     Inr \<lparr>color = ''red'', confidence = NaN, analysis = ''RED (NaN%): mixed signals'',
          indicators = Some \<lparr>ind_momentum = 0, ind_movingAverage = 0, ind_volume = 0,
                             ind_volatility = Fin 0, ind_supportResistance = 0\<rparr>,
          priceChange = Fin 0\<rparr>"
  by (simp add: analyzeTrend_def Let_def length_flat_window slice_flat_window
      calculateMomentum_flat_window calculateMovingAverageTrend_flat_window
      calculateVolumeTrend_flat_window calculateVolatility_flat_window
      findSupportResistance_flat_window generateAnalysisText_no_signal)


section \<open>What the clamps guarantee\<close>

text \<open>
  \<open>Math.min(0.95, Math.max(0.55, x))\<close> is within \<open>[0.55, 0.95]\<close> unless \<open>x\<close> is NaN, and
  rounding to 2 decimals keeps it there.
\<close>

lemma clamp_confidence:
  "jmin (Fin 0.95) (jmax (Fin 0.55) x) = NaN \<and> x = NaN \<or>
   (\<exists>c. jmin (Fin 0.95) (jmax (Fin 0.55) x) = Fin c \<and> 0.55 \<le> c \<and> c \<le> 0.95)"
proof (cases x)
  case (Fin a)
  have "jmin (Fin 0.95) (jmax (Fin 0.55) (Fin a)) = Fin (min 0.95 (max 0.55 a))"
    by (auto simp add: jmin_def jmax_def)
  moreover have "0.55 \<le> min 0.95 (max 0.55 a)" and "min 0.95 (max 0.55 a) \<le> 0.95"
    by simp_all
  ultimately show ?thesis using Fin by blast
next
  case PInf
  have "jmin (Fin 0.95) (jmax (Fin 0.55) PInf) = Fin 0.95"
    by (simp add: jmin_def jmax_def)
  moreover have "(0.55::real) \<le> 0.95" by simp
  ultimately show ?thesis using PInf by blast
next
  case NInf
  have "jmin (Fin 0.95) (jmax (Fin 0.55) NInf) = Fin 0.55"
    by (simp add: jmin_def jmax_def)
  moreover have "(0.55::real) \<le> 0.95" by simp
  ultimately show ?thesis using NInf by blast
next
  case NaN
  then show ?thesis by simp
qed

lemma toFixed2_confidence:
  assumes "0.55 \<le> c" and "c \<le> 0.95"
  shows "\<exists>d. toFixed2 (Fin c) = Fin d \<and> 0.55 \<le> d \<and> d \<le> 0.95"
proof -
  let ?n = "\<lfloor>c * 100 + 1 / 2\<rfloor>"
  from assms have "55 \<le> ?n" by (simp add: le_floor_iff)
  moreover from assms have "?n < 96" by (simp add: floor_less_iff)
  ultimately have "55 \<le> real_of_int ?n" and "real_of_int ?n \<le> 95" by simp_all
  then have d: "0.55 \<le> real_of_int ?n / 100" "real_of_int ?n / 100 \<le> 0.95" by simp_all
  from assms have "\<bar>c\<bar> < 10 ^ 21" and "\<not> c < 0" by simp_all
  then have "toFixed2 (Fin c) = Fin (real_of_int ?n / 100)" by simp
  with d show ?thesis by blast
qed

text \<open>
  So the confidence of an analysis of 3 candles or more is within \<open>[0.55, 0.95]\<close> or NaN.
\<close>

lemma analyzeTrend_confidence_range:
  assumes "3 \<le> length priceData" and "analyzeTrend priceData = Inr t"
  shows "confidence t = NaN \<or> (\<exists>c. confidence t = Fin c \<and> 0.55 \<le> c \<and> c \<le> 0.95)"
proof -
  from assms obtain x where conf: "confidence t = toFixed2 (jmin (Fin 0.95) (jmax (Fin 0.55) x))"
    by (auto simp add: analyzeTrend_def Let_def split: sum.splits)
  from clamp_confidence [of x] show ?thesis
  proof
    assume "jmin (Fin 0.95) (jmax (Fin 0.55) x) = NaN \<and> x = NaN"
    with conf show ?thesis by simp
  next
    assume "\<exists>c. jmin (Fin 0.95) (jmax (Fin 0.55) x) = Fin c \<and> 0.55 \<le> c \<and> c \<le> 0.95"
    then obtain c where "jmin (Fin 0.95) (jmax (Fin 0.55) x) = Fin c" "0.55 \<le> c" "c \<le> 0.95"
      by blast
    with conf toFixed2_confidence [of c] show ?thesis by auto
  qed
qed

text \<open>
  \<open>Math.max(0.1, x)\<close> rounded to 2 decimals is at least 0.1, or infinite, unless \<open>x\<close> is
  NaN.
\<close>

lemma toFixed2_price:
  assumes "1 / 10 \<le> m"
  shows "\<exists>p. toFixed2 (Fin m) = Fin p \<and> 1 / 10 \<le> p"
proof (cases "10 ^ 21 \<le> \<bar>m\<bar>")
  case True
  with assms show ?thesis by simp
next
  case False
  let ?n = "\<lfloor>m * 100 + 1 / 2\<rfloor>"
  from assms have "10 \<le> ?n" by (simp add: le_floor_iff)
  then have "10 \<le> real_of_int ?n" by simp
  then have "1 / 10 \<le> real_of_int ?n / 100" by simp
  moreover from assms False have "toFixed2 (Fin m) = Fin (real_of_int ?n / 100)" by simp
  ultimately show ?thesis by blast
qed

lemma clamp_price:
  "toFixed2 (jmax (Fin 0.1) x) = NaN \<and> x = NaN \<or> toFixed2 (jmax (Fin 0.1) x) = PInf \<or>
   (\<exists>p. toFixed2 (jmax (Fin 0.1) x) = Fin p \<and> 1 / 10 \<le> p)"
proof (cases x)
  case (Fin a)
  have "jmax (Fin 0.1) (Fin a) = Fin (max (1 / 10) a)"
    by (auto simp add: jmax_def)
  moreover have "\<exists>p. toFixed2 (Fin (max (1 / 10) a)) = Fin p \<and> 1 / 10 \<le> p"
    by (rule toFixed2_price) simp
  ultimately show ?thesis using Fin by simp
next
  case NInf
  have "\<exists>p. toFixed2 (Fin (1 / 10)) = Fin p \<and> 1 / 10 \<le> p"
    by (rule toFixed2_price) simp
  then show ?thesis using NInf by (simp add: jmax_def)
qed (simp_all add: jmax_def)

lemma generatePricePrediction_price_range:
  assumes "priceData \<noteq> []" and "generatePricePrediction rnd k priceData interval = Inr (p, k')"
  shows "price p = NaN \<or> price p = PInf \<or> (\<exists>x. price p = Fin x \<and> 1 / 10 \<le> x)"
proof -
  from assms obtain y where "price p = toFixed2 (jmax (Fin 0.1) y)"
    by (auto simp add: generatePricePrediction_def Let_def split: sum.splits)
  with clamp_price [of y] show ?thesis by auto
qed

section \<open>When the confidence is a number\<close>

text \<open>
  On candles with positive closes the volatility is a finite number: the mean close is
  positive and the variance is not negative.
\<close>

lemma sum_closes_Fin:
  assumes "\<forall>d \<in> set data. \<exists>c. close d = Fin c \<and> 0 < c"
  shows "\<exists>s. foldl jadd (Fin a) (map close data) = Fin s \<and> a \<le> s \<and> (data \<noteq> [] \<longrightarrow> a < s)"
  using assms
proof (induction data arbitrary: a)
  case Nil
  then show ?case by simp
next
  case (Cons d data)
  then obtain c where c: "close d = Fin c" "0 < c" by auto
  from Cons have "\<forall>d \<in> set data. \<exists>c. close d = Fin c \<and> 0 < c" by simp
  from Cons.IH [OF this, of "a + c"] obtain s where
    "foldl jadd (Fin (a + c)) (map close data) = Fin s" "a + c \<le> s" by blast
  with c show ?case by auto
qed

lemma sum_squares_Fin:
  assumes "\<forall>d \<in> set data. \<exists>c. close d = Fin c \<and> 0 < c"
  shows "\<exists>v. foldl (\<lambda>sum price. jadd sum (jpow2 (jsub price (Fin m)))) (Fin a) (map close data)
             = Fin v \<and> a \<le> v"
  using assms
proof (induction data arbitrary: a)
  case Nil
  then show ?case by simp
next
  case (Cons d data)
  then obtain c where c: "close d = Fin c" by auto
  from Cons have "\<forall>d \<in> set data. \<exists>c. close d = Fin c \<and> 0 < c" by simp
  from Cons.IH [OF this, of "a + (c - m) * (c - m)"] obtain v where
    "foldl (\<lambda>sum price. jadd sum (jpow2 (jsub price (Fin m)))) (Fin (a + (c - m) * (c - m)))
       (map close data) = Fin v" "a + (c - m) * (c - m) \<le> v" by blast
  note run = this
  have "0 \<le> (c - m) * (c - m)" by simp
  with run(2) have "a \<le> v" by linarith
  with run(1) c show ?case by auto
qed

lemma calculateVolatility_Fin:
  assumes "data \<noteq> []" and "\<forall>d \<in> set data. \<exists>c. close d = Fin c \<and> 0 < c"
  shows "\<exists>r. calculateVolatility data = Fin r"
proof -
  let ?n = "real (length data)"
  from assms(1) have n: "0 < ?n" by simp
  from sum_closes_Fin [OF assms(2), of 0] assms(1) obtain s where
    s: "foldl jadd (Fin 0) (map close data) = Fin s" "0 < s" by auto
  from sum_squares_Fin [OF assms(2), of "s / ?n" 0] obtain v where
    v: "foldl (\<lambda>sum price. jadd sum (jpow2 (jsub price (Fin (s / ?n))))) (Fin 0) (map close data)
          = Fin v" "0 \<le> v" by blast
  from n s(2) have "s / ?n \<noteq> 0" by simp
  moreover from n v(2) have "\<not> v / ?n < 0" by (simp add: not_less)
  ultimately show ?thesis using n s v by (simp add: calculateVolatility_def Let_def)
qed

text \<open>
  With at least one signal that is not zero the agreement is a finite number too, and
  then the confidence is within \<open>[0.55, 0.95]\<close>: on candles with positive closes, the
  window without any signal is the only one whose confidence is NaN.
\<close>

lemma jmax_Fin: "jmax (Fin a) (Fin b) = Fin (max a b)"
  by (auto simp add: jmax_def)

lemma analyzeTrend_confidence_with_signal:
  assumes "3 \<le> length priceData"
    and "\<forall>d \<in> set priceData. \<exists>c. close d = Fin c \<and> 0 < c"
    and "analyzeTrend priceData = Inr t"
    and "indicators t = Some i"
    and "ind_momentum i \<noteq> 0 \<or> ind_movingAverage i \<noteq> 0 \<or> ind_volume i \<noteq> 0
         \<or> ind_supportResistance i \<noteq> 0"
  shows "\<exists>c. confidence t = Fin c \<and> 0.55 \<le> c \<and> c \<le> 0.95"
proof -
  let ?recent = "slice_last 10 priceData"
  from assms(1) have long: "\<not> length priceData < 3" and "priceData \<noteq> []" by auto
  then have recent: "?recent \<noteq> []" by (simp add: slice_last_nonempty)
  have "set ?recent \<subseteq> set priceData" by (simp add: slice_last_def set_drop_subset)
  with assms(2) have "\<forall>d \<in> set ?recent. \<exists>c. close d = Fin c \<and> 0 < c" by blast
  with recent obtain r where r: "calculateVolatility ?recent = Fin r"
    using calculateVolatility_Fin by blast
  obtain sr where sr: "findSupportResistance ?recent = Inr sr"
    using recent findSupportResistance_nonempty by blast
  define signals where
    "signals = filter (\<lambda>s::int. s \<noteq> 0)
       [signal (calculateMomentum ?recent), signal (calculateMovingAverageTrend ?recent),
        signal (calculateVolumeTrend ?recent), signal sr]"
  define bullish where "bullish = real (length (filter (\<lambda>s. s > 0) signals))"
  define bearish where "bearish = real (length (filter (\<lambda>s. s < 0) signals))"
  from assms(3,4) long sr have i:
    "i = \<lparr>ind_momentum = signal (calculateMomentum ?recent),
          ind_movingAverage = signal (calculateMovingAverageTrend ?recent),
          ind_volume = signal (calculateVolumeTrend ?recent),
          ind_volatility = calculateVolatility ?recent,
          ind_supportResistance = signal sr\<rparr>"
    by (auto simp add: analyzeTrend_def Let_def)
  with assms(5) have "signals \<noteq> []"
    unfolding signals_def filter_empty_conv by auto
  then have total: "real (length signals) \<noteq> 0" by simp
  from assms(3) long sr total have
    conf: "confidence t = toFixed2 (jmin (Fin 0.95) (jmax (Fin 0.55)
             (jadd (jadd (Fin 0.6)
                      (jmul (jdiv (jabs (jsub (Fin bullish) (Fin bearish)))
                                  (Fin (real (length signals)))) (Fin 0.25)))
                   (jmul (jmax (Fin 0.1) (jsub (Fin 1) (jmul (calculateVolatility ?recent) (Fin 2))))
                         (Fin 0.15)))))"
    unfolding signals_def bullish_def bearish_def
    by (auto simp add: analyzeTrend_def Let_def simp del: filter.simps)
  from total r have "\<exists>x. jadd (jadd (Fin 0.6)
                      (jmul (jdiv (jabs (jsub (Fin bullish) (Fin bearish)))
                                  (Fin (real (length signals)))) (Fin 0.25)))
                   (jmul (jmax (Fin 0.1) (jsub (Fin 1) (jmul (calculateVolatility ?recent) (Fin 2))))
                         (Fin 0.15)) = Fin x"
    by (simp add: jmax_Fin)
  then obtain x where "confidence t = toFixed2 (jmin (Fin 0.95) (jmax (Fin 0.55) (Fin x)))"
    using conf by auto
  moreover from clamp_confidence [of "Fin x"] obtain c where
    "jmin (Fin 0.95) (jmax (Fin 0.55) (Fin x)) = Fin c" "0.55 \<le> c" "c \<le> 0.95" by auto
  ultimately show ?thesis using toFixed2_confidence [of c] by auto
qed

section \<open>Claims about the trend analysis\<close>

text \<open>
  Claim C6. On a candle sequence of length 0, 1 or 2, \<open>analyzeTrend\<close> returns the
  degenerate result: colour green, confidence exactly 0.5, no price change, and the text
  \<open>Insufficient data\<close>.
\<close>

theorem analyzeTrend_insufficient_data:
  assumes "length priceData < 3"
  shows "analyzeTrend priceData =
           Inr \<lparr>color = ''green'', confidence = Fin 0.5, analysis = ''Insufficient data'',
                indicators = None, priceChange = Fin 0\<rparr>"
  using assms by (simp add: analyzeTrend_def)

theorem analyzeTrend_insufficient_data_witness:
  "length (take 2 mockData) < 3 \<and>
   analyzeTrend (take 2 mockData) =
     Inr \<lparr>color = ''green'', confidence = Fin 0.5, analysis = ''Insufficient data'',
          indicators = None, priceChange = Fin 0\<rparr>"
proof -
  have short: "length (take 2 mockData) < 3" by (simp add: mockData_def)
  from short analyzeTrend_insufficient_data [OF short] show ?thesis by simp
qed

text \<open>
  Claim C1 asks for a confidence within \<open>[0.55, 0.95]\<close>, or exactly 0.5, and says that the
  division of the agreement is guarded. The code divides by the number of non-zero
  signals without a guard: on the flat window no indicator has an opinion, the agreement
  is \<open>0 / 0\<close>, and the confidence that \<open>analyzeTrend\<close> returns is NaN. With a signal
  that is not zero the confidence is within the range
  (\<open>analyzeTrend_confidence_with_signal\<close>).
\<close>

theorem analyzeTrend_flat_window_confidence:
  "3 \<le> length flat_window \<and> \<not> isl (analyzeTrend flat_window) \<and>
   confidence (projr (analyzeTrend flat_window)) = NaN"
  by (simp add: analyzeTrend_flat_window length_flat_window)

text \<open>
  Claim C3 says that a window on which all four signals are zero is analysed as green.
  The flat window is such a window and is analysed as red.
\<close>

theorem analyzeTrend_no_signal_green_counterexample:
  "3 \<le> length flat_window \<and> \<not> isl (analyzeTrend flat_window) \<and>
   indicators (projr (analyzeTrend flat_window)) =
     Some \<lparr>ind_momentum = 0, ind_movingAverage = 0, ind_volume = 0, ind_volatility = Fin 0,
           ind_supportResistance = 0\<rparr> \<and>
   color (projr (analyzeTrend flat_window)) \<noteq> ''green''"
  by (simp add: analyzeTrend_flat_window length_flat_window)

text \<open>
  Claim C3, amended. On every candle sequence of length at least 3 on which all four
  indicator signals are zero, \<open>analyzeTrend\<close> returns the colour red: the bullish count
  has to exceed the bearish count for green, and 0 does not exceed 0.
\<close>

theorem analyzeTrend_no_signal_red:
  assumes "3 \<le> length priceData"
    and "analyzeTrend priceData = Inr t"
    and "indicators t = Some i"
    and "ind_momentum i = 0" and "ind_movingAverage i = 0"
    and "ind_volume i = 0" and "ind_supportResistance i = 0"
  shows "color t = ''red''"
proof -
  from assms(1) have long: "\<not> length priceData < 3" by simp
  obtain sr where sr: "findSupportResistance (slice_last 10 priceData) = Inr sr"
    using analyzeTrend_total [of priceData] long
    by (auto simp add: analyzeTrend_def Let_def split: sum.splits)
  from assms(2,3) long sr have
    "i = \<lparr>ind_momentum = signal (calculateMomentum (slice_last 10 priceData)),
          ind_movingAverage = signal (calculateMovingAverageTrend (slice_last 10 priceData)),
          ind_volume = signal (calculateVolumeTrend (slice_last 10 priceData)),
          ind_volatility = calculateVolatility (slice_last 10 priceData),
          ind_supportResistance = signal sr\<rparr>"
    by (auto simp add: analyzeTrend_def Let_def)
  with assms(4-7) have zero:
    "signal (calculateMomentum (slice_last 10 priceData)) = 0"
    "signal (calculateMovingAverageTrend (slice_last 10 priceData)) = 0"
    "signal (calculateVolumeTrend (slice_last 10 priceData)) = 0"
    "signal sr = 0"
    by simp_all
  from assms(2) long sr zero show ?thesis
    by (auto simp add: analyzeTrend_def Let_def)
qed

theorem analyzeTrend_no_signal_red_witness:
  "3 \<le> length flat_window \<and> \<not> isl (analyzeTrend flat_window) \<and>
   color (projr (analyzeTrend flat_window)) = ''red''"
proof -
  let ?i = "\<lparr>ind_momentum = 0, ind_movingAverage = 0, ind_volume = 0, ind_volatility = Fin 0,
             ind_supportResistance = 0\<rparr>"
  let ?t = "\<lparr>color = ''red'', confidence = NaN, analysis = ''RED (NaN%): mixed signals'',
             indicators = Some ?i, priceChange = Fin 0\<rparr>"
  have len: "3 \<le> length flat_window" by (simp add: length_flat_window)
  have run: "analyzeTrend flat_window = Inr ?t" by (rule analyzeTrend_flat_window)
  have "color ?t = ''red''"
    by (rule analyzeTrend_no_signal_red [OF len run, of ?i]) simp_all
  with len run show ?thesis by simp
qed

section \<open>Claims about batches\<close>

lemma intervalSeconds_cadence:
  assumes "interval \<in> {''hours'', ''days'', ''weeks''}"
  shows "toNumber (property intervalSeconds interval) = Fin (cadence_period interval)"
  using assms by (auto simp add: property_def intervalSeconds_def cadence_period_def)

lemma cadence_period_positive: "0 < cadence_period interval"
  by (simp add: cadence_period_def)

text \<open>
  The loop from any round \<open>i\<close> on: it appends one record per remaining round to what was
  pushed before, and the record of round \<open>i + j\<close> carries the base timestamp plus
  \<open>i + j\<close> periods.
\<close>

lemma generatePredictions_loop_from:
  assumes "interval \<in> {''hours'', ''days'', ''weeks''}"
  shows "\<exists>ps k'. generatePredictions_loop rnd base hist interval count i k acc = Inr (acc @ ps, k')
           \<and> length ps = count - i
           \<and> (\<forall>j < count - i. timestamp (ps ! j) =
                 Fin (real_of_int base + real (i + j) * cadence_period interval))"
  using assms
proof (induction rnd base hist interval count i k acc rule: generatePredictions_loop.induct)
  case (1 rnd base hist interval count i k acc)
  show ?case
  proof (cases "i < count")
    case False
    then show ?thesis by (simp add: generatePredictions_loop.simps)
  next
    case True
    let ?k = "if hist = [] then k + 3 else k + 1"
    obtain p where gen: "generatePricePrediction rnd k hist interval = Inr (p, ?k)"
      using generatePricePrediction_total by blast
    let ?ts = "jadd (Fin (real_of_int base))
                 (jmul (Fin (real i)) (toNumber (property intervalSeconds interval)))"
    let ?r = "\<lparr>color = color p, confidence = confidence p, analysis = analysis p,
                indicators = indicators p, price = price p, timestamp = ?ts\<rparr>"
    have ts: "?ts = Fin (real_of_int base + real i * cadence_period interval)"
      using "1.prems" by (simp add: intervalSeconds_cadence)
    from "1.IH" [OF True refl gen refl "1.prems"]
    obtain ps k' where
      run: "generatePredictions_loop rnd base hist interval count (i + 1) ?k (acc @ [?r])
              = Inr ((acc @ [?r]) @ ps, k')"
      and len: "length ps = count - (i + 1)"
      and later: "\<forall>j < count - (i + 1). timestamp (ps ! j) =
                    Fin (real_of_int base + real (i + 1 + j) * cadence_period interval)"
      by blast
    have step: "generatePredictions_loop rnd base hist interval count i k acc
                  = Inr (acc @ (?r # ps), k')"
      using True gen run by (subst generatePredictions_loop.simps) (simp add: Let_def)
    have len': "length (?r # ps) = count - i"
      using True len by simp
    have all: "\<forall>j < count - i. timestamp ((?r # ps) ! j) =
                 Fin (real_of_int base + real (i + j) * cadence_period interval)"
    proof (intro allI impI)
      fix j
      assume j: "j < count - i"
      show "timestamp ((?r # ps) ! j) =
              Fin (real_of_int base + real (i + j) * cadence_period interval)"
      proof (cases j)
        case 0
        then show ?thesis using ts by simp
      next
        case (Suc j')
        then have "j' < count - (i + 1)" using j by simp
        with later have "timestamp (ps ! j') =
            Fin (real_of_int base + real (i + 1 + j') * cadence_period interval)"
          by blast
        then show ?thesis using Suc by simp
      qed
    qed
    from step len' all show ?thesis by blast
  qed
qed

text \<open>
  \<open>generatePredictions\<close> runs that loop from round 0 on the fetched history, with the
  base timestamp of the cadence, once the fetch and the price report went through.
\<close>

lemma generatePredictions_run:
  assumes "fetchOHLCData response = Inr historicalData"
    and "currentPrice = None \<or>
         (\<exists>cp. currentPrice = Some cp \<and> is_number (cp_price cp) \<and> is_number (cp_change24h cp))"
  shows "generatePredictions nextTimestamps response currentPrice rnd k interval count =
           generatePredictions_loop rnd
             (if interval = ''hours'' then hourly nextTimestamps
              else if interval = ''days'' then daily nextTimestamps
              else weekly nextTimestamps)
             historicalData interval count 0 k []"
  using assms by (auto simp add: generatePredictions_def)

text \<open>
  Claim C2. For each of the cadences \<open>hours\<close>, \<open>days\<close> and \<open>weeks\<close>, every count \<open>N\<close>
  and every candle sequence, the batch loop returns exactly \<open>N\<close> records; record \<open>i\<close> has
  the timestamp \<open>firstAligned + i * period\<close>, with the period 3600, 86400 or 604800
  seconds of the cadence, and the timestamps are strictly increasing.
\<close>

theorem generatePredictions_loop_batch:
  assumes "interval \<in> {''hours'', ''days'', ''weeks''}"
  shows "\<exists>ps k'. generatePredictions_loop rnd firstAligned candles interval N 0 k [] = Inr (ps, k')
           \<and> length ps = N
           \<and> (\<forall>i. i < N \<longrightarrow> timestamp (ps ! i) =
                 Fin (real_of_int firstAligned + real i * cadence_period interval))
           \<and> (\<forall>i j. i < j \<and> j < N \<longrightarrow> jlt (timestamp (ps ! i)) (timestamp (ps ! j)))"
proof -
  from generatePredictions_loop_from [OF assms, of rnd firstAligned candles N 0 k "[]"]
  obtain ps k' where
    run: "generatePredictions_loop rnd firstAligned candles interval N 0 k [] = Inr (ps, k')"
    and len: "length ps = N"
    and ts: "\<forall>j < N. timestamp (ps ! j) =
               Fin (real_of_int firstAligned + real j * cadence_period interval)"
    by auto
  have "jlt (timestamp (ps ! i)) (timestamp (ps ! j))" if "i < j \<and> j < N" for i j
  proof -
    from that have "real i * cadence_period interval < real j * cadence_period interval"
      using cadence_period_positive [of interval] by simp
    with that ts show ?thesis by simp
  qed
  with run len ts show ?thesis by blast
qed

theorem generatePredictions_loop_batch_witness:
  "''hours'' \<in> {''hours'', ''days'', ''weeks''} \<and>
   (\<exists>ps k'. generatePredictions_loop (\<lambda>n. 1 / 2) 1704067200 mockData ''hours'' 2 0 0 []
              = Inr (ps, k')
      \<and> map timestamp ps = [Fin 1704067200, Fin 1704070800])"
proof -
  have cadence: "''hours'' \<in> {''hours'', ''days'', ''weeks''}" by simp
  from generatePredictions_loop_batch [OF cadence, of "\<lambda>n. 1 / 2" 1704067200 mockData 2 0]
  obtain ps k' where
    run: "generatePredictions_loop (\<lambda>n. 1 / 2) 1704067200 mockData ''hours'' 2 0 0 []
            = Inr (ps, k')"
    and len: "length ps = 2"
    and ts: "\<forall>i. i < 2 \<longrightarrow> timestamp (ps ! i) =
               Fin (real_of_int 1704067200 + real i * cadence_period ''hours'')"
    by blast
  from ts have "timestamp (ps ! 0) = Fin 1704067200" and "timestamp (ps ! 1) = Fin 1704070800"
    by (simp_all add: cadence_period_def)
  moreover from len obtain a b where "ps = [a, b]"
    by (cases ps; cases "tl ps") auto
  ultimately have stamps: "map timestamp ps = [Fin 1704067200, Fin 1704070800]" by simp
  have "\<exists>ps k'. generatePredictions_loop (\<lambda>n. 1 / 2) 1704067200 mockData ''hours'' 2 0 0 []
              = Inr (ps, k')
      \<and> map timestamp ps = [Fin 1704067200, Fin 1704070800]"
    by (rule exI [of _ ps], rule exI [of _ k']) (simp add: run stamps)
  with cadence show ?thesis by (rule conjI)
qed

section \<open>Rounding to doubles: the binade and the nearest integer\<close>

lemma binade_nonzero:
  assumes "(2::real) powi e \<le> \<bar>x\<bar>"
  shows "x \<noteq> 0"
proof -
  have "(0::real) < 2 powi e" by simp
  with assms have "0 < \<bar>x\<bar>" by linarith
  then show ?thesis by simp
qed

lemma expo_bounds:
  assumes "x \<noteq> 0"
  shows "2 powi expo x \<le> \<bar>x\<bar>" and "\<bar>x\<bar> < 2 powi (expo x + 1)"
proof -
  let ?a = "\<bar>x\<bar>"
  from assms have pos: "0 < ?a" by simp
  have "2 powi expo x \<le> ?a \<and> ?a < 2 powi (expo x + 1)"
  proof (cases "1 \<le> ?a")
    case True
    let ?m = "\<lfloor>?a\<rfloor>"
    from True have m: "0 < ?m" by simp
    then have b: "1 \<le> bitlen ?m" by (simp add: bitlen_alt_def)
    from True have e: "expo x = bitlen ?m - 1" by (simp add: expo_def)
    from bitlen_bounds [OF m] have lo: "2 ^ nat (bitlen ?m - 1) \<le> ?m" and hi: "?m < 2 ^ nat (bitlen ?m)"
      by simp_all
    from lo have "real_of_int (2 ^ nat (bitlen ?m - 1)) \<le> real_of_int ?m" by (simp only: of_int_le_iff)
    then have "2 ^ nat (bitlen ?m - 1) \<le> real_of_int ?m" by simp
    also have "\<dots> \<le> ?a" by simp
    finally have 1: "2 powi (bitlen ?m - 1) \<le> ?a"
      using b by (simp add: power_int_nonneg_exp)
    from hi have "?m + 1 \<le> 2 ^ nat (bitlen ?m)" by simp
    then have "real_of_int (?m + 1) \<le> real_of_int (2 ^ nat (bitlen ?m))" by (simp only: of_int_le_iff)
    then have "real_of_int ?m + 1 \<le> 2 ^ nat (bitlen ?m)" by simp
    moreover have "?a < real_of_int ?m + 1" by linarith
    ultimately have "?a < 2 ^ nat (bitlen ?m)" by linarith
    then have 2: "?a < 2 powi (bitlen ?m - 1 + 1)"
      using b by (simp add: power_int_nonneg_exp)
    from 1 2 e show ?thesis by simp
  next
    case False
    let ?b = "1 / ?a"
    let ?m = "\<lfloor>?b\<rfloor>"
    define k where "k = bitlen ?m - 1"
    define k' where "k' = k + 1"
    from False pos have b1: "1 < ?b" by simp
    then have m: "0 < ?m" by simp
    then have "1 \<le> bitlen ?m" by (simp add: bitlen_alt_def)
    then have k: "0 \<le> k" and k'': "0 \<le> k'" and bl: "bitlen ?m = k'"
      by (simp_all add: k_def k'_def)
    from bitlen_bounds [OF m] have lo: "2 ^ nat k \<le> ?m" and hi: "?m < 2 ^ nat k'"
      by (simp_all add: k_def bl)
    from lo have "real_of_int (2 ^ nat k) \<le> real_of_int ?m" by (simp only: of_int_le_iff)
    then have "2 ^ nat k \<le> real_of_int ?m" by simp
    also have "\<dots> \<le> ?b" by simp
    finally have lo': "2 powi k \<le> ?b" using k by (simp add: power_int_nonneg_exp)
    from hi have "?m + 1 \<le> 2 ^ nat k'" by simp
    then have "real_of_int (?m + 1) \<le> real_of_int (2 ^ nat k')" by (simp only: of_int_le_iff)
    then have "real_of_int ?m + 1 \<le> 2 ^ nat k'" by simp
    moreover have "?b < real_of_int ?m + 1" by linarith
    ultimately have "?b < 2 ^ nat k'" by linarith
    then have hi': "?b < 2 powi k'" using k'' by (simp add: power_int_nonneg_exp)
    have p: "0 < (2::real) powi k" "0 < (2::real) powi k'" by simp_all
    from lo' pos p have le: "?a * 2 powi k \<le> 1" by (simp add: field_simps)
    from hi' pos p have gt: "1 / 2 powi k' < ?a" by (simp add: field_simps)
    have m1: "(2::real) powi (- k) = 1 / 2 powi k" by (rule power_int_minus_divide)
    have m2: "(2::real) powi (- k') = 1 / 2 powi k'" by (rule power_int_minus_divide)
    have s1: "- k - 1 = - k'" by (simp add: k'_def)
    show ?thesis
    proof (cases "?a * 2 powi k = 1")
      case True
      with False have e: "expo x = - k" by (simp add: expo_def Let_def k_def)
      from True p have "?a = 1 / 2 powi k" by (simp add: field_simps)
      then have eq: "?a = 2 powi (- k)" by (simp only: m1)
      have "(2::real) powi (- k) < 2 powi (- k + 1)"
        by (rule power_int_strict_increasing) simp_all
      with eq have "2 powi (- k) \<le> ?a \<and> ?a < 2 powi (- k + 1)" by simp
      then show ?thesis by (simp only: e)
    next
      case ne: False
      with False have e: "expo x = - k - 1" by (simp add: expo_def Let_def k_def)
      from gt have 1: "2 powi (- k') \<le> ?a" by (simp only: m2)
      from le ne have "?a * 2 powi k < 1" by simp
      with p have "?a < 1 / 2 powi k" by (simp add: field_simps)
      then have 2: "?a < 2 powi (- k)" by (simp only: m1)
      have t: "- k' + 1 = - k" by (simp add: k'_def)
      from e have e': "expo x = - k'" by (simp only: s1)
      from 2 have upper: "?a < 2 powi (- k' + 1)" by (simp only: t)
      from 1 upper have "2 powi (- k') \<le> ?a \<and> ?a < 2 powi (- k' + 1)" by (rule conjI)
      then show ?thesis by (simp only: e')
    qed
  qed
  then show "2 powi expo x \<le> \<bar>x\<bar>" and "\<bar>x\<bar> < 2 powi (expo x + 1)" by simp_all
qed

lemma expo_le:
  assumes "x \<noteq> 0" and "\<bar>x\<bar> < 2 powi (e + 1)"
  shows "expo x \<le> e"
proof (rule ccontr)
  assume "\<not> expo x \<le> e"
  then have "e + 1 \<le> expo x" by simp
  then have "(2::real) powi (e + 1) \<le> 2 powi expo x"
    by (rule power_int_increasing) simp
  with expo_bounds(1) [OF assms(1)] assms(2) show False by linarith
qed

lemma expo_ge:
  assumes "(2::real) powi e \<le> \<bar>x\<bar>"
  shows "e \<le> expo x"
proof (rule ccontr)
  assume "\<not> e \<le> expo x"
  then have "expo x + 1 \<le> e" by simp
  then have "(2::real) powi (expo x + 1) \<le> 2 powi e"
    by (rule power_int_increasing) simp
  moreover from assms have "x \<noteq> 0" by (rule binade_nonzero)
  ultimately show False using expo_bounds(2) [of x] assms by linarith
qed

lemma expo_eq:
  assumes "2 powi e \<le> \<bar>x\<bar>" and "\<bar>x\<bar> < 2 powi (e + 1)"
  shows "expo x = e"
proof -
  from assms(1) have "x \<noteq> 0" by (rule binade_nonzero)
  with assms show ?thesis using expo_le [of x e] expo_ge [of e x] by simp
qed

lemma rne_ge: "of_int n \<le> q \<Longrightarrow> n \<le> rne q"
proof -
  assume "of_int n \<le> q"
  then have "n \<le> \<lfloor>q\<rfloor>" by (simp add: le_floor_iff)
  then show ?thesis by (simp add: rne_def Let_def)
qed

lemma rne_le: "q \<le> of_int n \<Longrightarrow> rne q \<le> n"
proof (cases "q = of_int n")
  case True
  then show ?thesis by (simp add: rne_def)
next
  case False
  assume "q \<le> of_int n"
  with False have "q < of_int n" by simp
  then have "\<lfloor>q\<rfloor> < n" by (simp add: floor_less_iff)
  then show ?thesis by (simp add: rne_def Let_def)
qed

lemma rne_low:
  assumes "of_int n \<le> q" and "q < of_int n + 1 / 2"
  shows "rne q = n"
proof -
  from assms have "\<lfloor>q\<rfloor> = n" by (simp add: floor_eq_iff)
  with assms show ?thesis by (simp add: rne_def)
qed

lemma rne_high:
  assumes "of_int n + 1 / 2 < q" and "q < of_int n + 1"
  shows "rne q = n + 1"
proof -
  from assms have "\<lfloor>q\<rfloor> = n" by (simp add: floor_eq_iff)
  with assms show ?thesis by (simp add: rne_def)
qed

lemma rne_tie_even:
  assumes "q = of_int n + 1 / 2" and "odd n"
  shows "rne q = n + 1"
proof -
  from assms have "\<lfloor>q\<rfloor> = n" by (simp add: floor_eq_iff)
  with assms show ?thesis by (simp add: rne_def)
qed

section \<open>Rounding to doubles: bounds\<close>

text \<open>In a binade above the subnormal range, the spacing is \<open>2^(e-52)\<close>.\<close>

lemma nearest_double_binade:
  assumes "2 powi e \<le> \<bar>x\<bar>" and "\<bar>x\<bar> < 2 powi (e + 1)" and "- 1022 \<le> e"
  shows "nearest_double x = of_int (rne (x / 2 powi (e - 52))) * 2 powi (e - 52)"
proof -
  from assms(1) have "x \<noteq> 0" by (rule binade_nonzero)
  moreover from assms have "expo x = e" by (simp add: expo_eq)
  ultimately show ?thesis using assms(3) by (simp add: nearest_double_def Let_def max_def)
qed

text \<open>
  Rounding does not cross a multiple \<open>k * 2^j\<close> of a power of two, as long as the
  spacing at \<open>x\<close> divides \<open>2^j\<close>: such a bound is itself a double or lies on the grid
  that \<open>x\<close> is rounded to.
\<close>

lemma grid_multiple:
  assumes "x \<noteq> 0" and "\<bar>x\<bar> < 2 powi (j + 53)" and "- 1074 \<le> j"
  shows "\<exists>N::int. (2::real) powi j = of_int N * 2 powi (max (expo x) (- 1022) - 52)"
proof -
  let ?s = "max (expo x) (- 1022) - 52"
  have "j + 53 = j + 52 + 1" by simp
  with assms(2) have "\<bar>x\<bar> < 2 powi (j + 52 + 1)" by (simp only:)
  with assms(1) have "expo x \<le> j + 52" by (rule expo_le)
  with assms(3) have d: "0 \<le> j - ?s" by simp
  have "(2::real) powi j = 2 powi ((j - ?s) + ?s)" by simp
  also have "\<dots> = 2 powi (j - ?s) * 2 powi ?s" by (rule power_int_add) simp
  also have "(2::real) powi (j - ?s) = 2 ^ nat (j - ?s)" using d by (rule power_int_nonneg_exp)
  also have "\<dots> = of_int (2 ^ nat (j - ?s))" by simp
  finally show ?thesis by blast
qed

lemma nearest_double_le:
  assumes "x \<le> of_int k * 2 powi j" and "\<bar>x\<bar> < 2 powi (j + 53)" and "- 1074 \<le> j"
  shows "nearest_double x \<le> of_int k * 2 powi j"
proof (cases "x = 0")
  case True
  with assms(1) show ?thesis by (simp add: nearest_double_def)
next
  case False
  let ?u = "(2::real) powi (max (expo x) (- 1022) - 52)"
  have u: "0 < ?u" by simp
  from grid_multiple [OF False assms(2,3)] obtain N :: int where N: "2 powi j = of_int N * ?u"
    by blast
  from assms(1) N have "x \<le> of_int (k * N) * ?u" by (simp add: mult.assoc)
  with u have "x / ?u \<le> of_int (k * N)" by (simp add: pos_divide_le_eq)
  then have "rne (x / ?u) \<le> k * N" by (rule rne_le)
  then have "real_of_int (rne (x / ?u)) \<le> real_of_int (k * N)" by (simp only: of_int_le_iff)
  with u have "real_of_int (rne (x / ?u)) * ?u \<le> real_of_int (k * N) * ?u"
    by (simp only: mult_le_cancel_right_pos)
  with False N show ?thesis by (simp add: nearest_double_def Let_def mult.assoc)
qed

lemma nearest_double_ge:
  assumes "of_int k * 2 powi j \<le> x" and "\<bar>x\<bar> < 2 powi (j + 53)" and "- 1074 \<le> j"
  shows "of_int k * 2 powi j \<le> nearest_double x"
proof (cases "x = 0")
  case True
  with assms(1) show ?thesis by (simp add: nearest_double_def)
next
  case False
  let ?u = "(2::real) powi (max (expo x) (- 1022) - 52)"
  have u: "0 < ?u" by simp
  from grid_multiple [OF False assms(2,3)] obtain N :: int where N: "2 powi j = of_int N * ?u"
    by blast
  from assms(1) N have "of_int (k * N) * ?u \<le> x" by (simp add: mult.assoc)
  with u have "of_int (k * N) \<le> x / ?u" by (simp add: pos_le_divide_eq)
  then have "k * N \<le> rne (x / ?u)" by (rule rne_ge)
  then have "real_of_int (k * N) \<le> real_of_int (rne (x / ?u))" by (simp only: of_int_le_iff)
  with u have "real_of_int (k * N) * ?u \<le> real_of_int (rne (x / ?u)) * ?u"
    by (simp only: mult_le_cancel_right_pos)
  with False N show ?thesis by (simp add: nearest_double_def Let_def mult.assoc)
qed

lemma double_of_Fin:
  assumes "\<bar>nearest_double x\<bar> \<le> 64"
  shows "double_of x = Fin (nearest_double x)"
proof -
  have "(2::real) powi 6 \<le> 2 powi 1024" by (rule power_int_increasing) simp_all
  then have "(64::real) \<le> 2 powi 1024" by simp
  moreover have "(64::real) \<noteq> 2 powi 1024"
  proof
    assume "(64::real) = 2 powi 1024"
    then have "(2::real) powi 6 = 2 powi 1024" by simp
    moreover have "(2::real) powi 6 < 2 powi 1024" by (rule power_int_strict_increasing) simp_all
    ultimately show False by simp
  qed
  ultimately have "(64::real) < 2 powi 1024" by linarith
  with assms show ?thesis by (simp add: double_of_def Let_def)
qed

section \<open>The fallback in doubles\<close>

text \<open>The literal \<open>0.3\<close> is the double \<open>5404319552844595 / 2^54\<close>, a little below 0.3.\<close>

lemma double_of_literal:
  "double_of 0.3 = Fin (5404319552844595 / 2 ^ 54)"
proof -
  have "nearest_double (3 / 10) =
          of_int (rne ((3 / 10) / 2 powi (- 2 - 52))) * 2 powi (- 2 - 52)"
    by (rule nearest_double_binade) simp_all
  moreover have "rne ((3 / 10) / 2 powi (- 2 - 52)) = 5404319552844595"
    by (rule rne_low) simp_all
  ultimately have n: "nearest_double (3 / 10) = 5404319552844595 / 2 ^ 54" by simp
  then have "\<bar>nearest_double (3 / 10)\<bar> \<le> 64" by simp
  then have "double_of (3 / 10) = Fin (nearest_double (3 / 10))" by (rule double_of_Fin)
  with n show ?thesis by simp
qed

text \<open>A double below 1 is at most \<open>1 - 2^(-53)\<close>.\<close>

lemma double_below_one:
  assumes "is_double r" and "r < 1"
  shows "r \<le> 1 - 1 / 2 ^ 53"
proof (cases "r < 1 / 2")
  case True
  then show ?thesis by simp
next
  case False
  with assms(2) have "2 powi (- 1) \<le> \<bar>r\<bar>" and "\<bar>r\<bar> < 2 powi (- 1 + 1)" by simp_all
  then have "nearest_double r = of_int (rne (r / 2 powi (- 1 - 52))) * 2 powi (- 1 - 52)"
    by (rule nearest_double_binade) simp
  with assms(1) have r: "r = of_int (rne (r * 2 ^ 53)) / 2 ^ 53"
    by (simp add: is_double_def)
  let ?n = "rne (r * 2 ^ 53)"
  from r assms(2) have "real_of_int ?n < 2 ^ 53" by (simp add: field_simps)
  then have "real_of_int ?n < real_of_int (2 ^ 53)" by simp
  then have "?n < 2 ^ 53" by (simp only: of_int_less_iff)
  then have "?n \<le> 2 ^ 53 - 1" by simp
  then have "real_of_int ?n \<le> real_of_int (2 ^ 53 - 1)" by (simp only: of_int_le_iff)
  then have "real_of_int ?n / 2 ^ 53 \<le> (2 ^ 53 - 1) / 2 ^ 53" by (simp add: divide_right_mono)
  with r show ?thesis by (simp add: field_simps)
qed

text \<open>The product \<open>r * 10\<close> of a draw rounds into \<open>[0, 10]\<close>, and the price into \<open>[45, 55]\<close>.\<close>

lemma fallback_price:
  assumes "0 \<le> r" and "r < 1"
  shows "\<exists>p. jadd_double (Fin 45.0) (jmul_double (Fin r) (Fin 10)) = Fin p \<and> 45 \<le> p \<and> p \<le> 55"
proof -
  let ?x = "r * 10"
  let ?y = "nearest_double ?x"
  from assms have x: "0 \<le> ?x" "?x \<le> 10" "\<bar>?x\<bar> < 2 powi (0 + 53)" by simp_all
  have "of_int 0 * 2 powi 0 \<le> ?y"
    by (rule nearest_double_ge) (use x in simp_all)
  moreover have "?y \<le> of_int 10 * 2 powi 0"
    by (rule nearest_double_le) (use x in simp_all)
  ultimately have y: "0 \<le> ?y" "?y \<le> 10" by simp_all
  then have prod: "jmul_double (Fin r) (Fin 10) = Fin ?y"
    by (simp add: jmul_double_def double_of_Fin)
  let ?p = "nearest_double (45 + ?y)"
  from y have s: "45 \<le> 45 + ?y" "45 + ?y \<le> 55" "\<bar>45 + ?y\<bar> < 2 powi (0 + 53)" by simp_all
  have "of_int 45 * 2 powi 0 \<le> ?p"
    by (rule nearest_double_ge) (use s in simp_all)
  moreover have "?p \<le> of_int 55 * 2 powi 0"
    by (rule nearest_double_le) (use s in simp_all)
  ultimately have p: "45 \<le> ?p" "?p \<le> 55" by simp_all
  then have "jadd_double (Fin 45.0) (Fin ?y) = Fin ?p"
    by (simp add: jadd_double_def double_of_Fin)
  with prod p show ?thesis by simp
qed

text \<open>
  The product \<open>r * 0.3\<close> of a draw rounds to at most the double just below the literal
  \<open>0.3\<close>, and the confidence to at most the double just below 0.8.
\<close>

lemma fallback_confidence:
  assumes "0 \<le> r" and "r \<le> 1 - 1 / 2 ^ 53"
  shows "\<exists>c. jadd_double (Fin 0.5) (jmul_double (Fin r) (double_of 0.3)) = Fin c
             \<and> 0.5 \<le> c \<and> c < 0.8"
proof -
  let ?d = "5404319552844595 / 2 ^ 54 :: real"
  let ?x = "r * ?d"
  let ?y = "nearest_double ?x"
  from assms have x0: "0 \<le> ?x" by simp
  have "?x \<le> (1 - 1 / 2 ^ 53) * ?d"
    using assms(2) by (rule mult_right_mono) simp
  moreover have "(1 - 1 / 2 ^ 53) * ?d = 48677783048764001811713999293645 / 2 ^ 107"
    by simp
  ultimately have x1: "?x \<le> 48677783048764001811713999293645 / 2 ^ 107" by (simp only:)
  then have xs: "\<bar>?x\<bar> < 2 powi (0 + 53)" "\<bar>?x\<bar> < 2 powi (- 54 + 53)" using x0 by simp_all
  have "of_int 0 * 2 powi 0 \<le> ?y"
    by (rule nearest_double_ge) (use x0 xs in simp_all)
  then have y0: "0 \<le> ?y" by simp
  have y1: "?y \<le> 5404319552844594 / 2 ^ 54"
  proof (cases "?x \<le> 5404319552844594 / 2 ^ 54")
    case True
    have "?y \<le> of_int 5404319552844594 * 2 powi (- 54)"
      by (rule nearest_double_le) (use True xs in simp_all)
    then show ?thesis by simp
  next
    case False
    then have lo: "5404319552844594 / 2 ^ 54 < ?x" by simp
    from lo x1 have "2 powi (- 2) \<le> \<bar>?x\<bar>" and "\<bar>?x\<bar> < 2 powi (- 2 + 1)" by simp_all
    then have "?y = of_int (rne (?x / 2 powi (- 2 - 52))) * 2 powi (- 2 - 52)"
      by (rule nearest_double_binade) simp
    moreover have "rne (?x / 2 powi (- 2 - 52)) = 5404319552844594"
      by (rule rne_low) (use lo x1 in simp_all)
    ultimately show ?thesis by simp
  qed
  from y0 y1 have prod: "jmul_double (Fin r) (double_of 0.3) = Fin ?y"
    by (simp add: jmul_double_def double_of_literal double_of_Fin)
  let ?c = "nearest_double (1 / 2 + ?y)"
  from y0 y1 have s: "1 / 2 \<le> 1 / 2 + ?y" "1 / 2 + ?y \<le> 7205759403792793 / 2 ^ 53" by simp_all
  then have ss: "\<bar>1 / 2 + ?y\<bar> < 2 powi (- 1 + 53)" "\<bar>1 / 2 + ?y\<bar> < 2 powi (- 53 + 53)" by simp_all
  have "of_int 1 * 2 powi (- 1) \<le> ?c"
    by (rule nearest_double_ge) (use s ss in simp_all)
  moreover have "?c \<le> of_int 7205759403792793 * 2 powi (- 53)"
    by (rule nearest_double_le) (use s ss in simp_all)
  ultimately have c: "1 / 2 \<le> ?c" "?c \<le> 7205759403792793 / 2 ^ 53" by simp_all
  then have "jadd_double (Fin 0.5) (Fin ?y) = Fin ?c"
    by (simp add: jadd_double_def double_of_Fin)
  moreover from c have "0.5 \<le> ?c" "?c < 0.8" by simp_all
  ultimately show ?thesis using prod by simp
qed

section \<open>Claims about the price prediction\<close>

text \<open>The draws \<open>1 - 2^(-52)\<close> and one half are doubles.\<close>

lemma is_double_high_value: "is_double (1 - 1 / 2 ^ 52)"
proof -
  have "nearest_double (1 - 1 / 2 ^ 52) =
          of_int (rne ((1 - 1 / 2 ^ 52) / 2 powi (- 1 - 52))) * 2 powi (- 1 - 52)"
    by (rule nearest_double_binade) simp_all
  moreover have "rne ((1 - 1 / 2 ^ 52) / 2 powi (- 1 - 52)) = 9007199254740990"
    by (rule rne_low) simp_all
  ultimately show ?thesis by (simp add: is_double_def)
qed

lemma is_double_high: "is_double (high_draws n)"
  by (simp only: high_draws_def is_double_high_value)

lemma is_double_half_value: "is_double (1 / 2)"
proof -
  have "nearest_double (1 / 2) = of_int (rne ((1 / 2) / 2 powi (- 1 - 52))) * 2 powi (- 1 - 52)"
    by (rule nearest_double_binade) simp_all
  moreover have "rne ((1 / 2) / 2 powi (- 1 - 52)) = 4503599627370496"
    by (rule rne_low) simp_all
  ultimately show ?thesis by (simp add: is_double_def)
qed

text \<open>
  With the draw \<open>1 - 2^(-52)\<close>, \<open>r * 10\<close> rounds to \<open>10 - 2^(-49)\<close>, and 45 plus that lies
  a quarter of a spacing below 55: the sum rounds to 55.
\<close>

lemma fallback_price_high_value:
  "jadd_double (Fin 45.0) (jmul_double (Fin (1 - 1 / 2 ^ 52)) (Fin 10)) = Fin 55"
proof -
  let ?x = "(1 - 1 / 2 ^ 52) * 10 :: real"
  have "nearest_double ?x = of_int (rne (?x / 2 powi (3 - 52))) * 2 powi (3 - 52)"
    by (rule nearest_double_binade) simp_all
  moreover have "rne (?x / 2 powi (3 - 52)) = 5629499534213118 + 1"
    by (rule rne_high) simp_all
  ultimately have y: "nearest_double ?x = 5629499534213119 / 2 ^ 49" by simp
  then have "\<bar>nearest_double ?x\<bar> \<le> 64" by simp
  then have "double_of ?x = Fin (nearest_double ?x)" by (rule double_of_Fin)
  with y have prod: "jmul_double (Fin (1 - 1 / 2 ^ 52)) (Fin 10) = Fin (5629499534213119 / 2 ^ 49)"
    by (simp add: jmul_double_def)
  let ?s = "45 + 5629499534213119 / 2 ^ 49 :: real"
  have "nearest_double ?s = of_int (rne (?s / 2 powi (5 - 52))) * 2 powi (5 - 52)"
    by (rule nearest_double_binade) simp_all
  moreover have "rne (?s / 2 powi (5 - 52)) = 7740561859543039 + 1"
    by (rule rne_high) simp_all
  ultimately have p: "nearest_double ?s = 55" by simp
  then have "\<bar>nearest_double ?s\<bar> \<le> 64" by simp
  then have "double_of ?s = Fin (nearest_double ?s)" by (rule double_of_Fin)
  with p have "jadd_double (Fin 45.0) (Fin (5629499534213119 / 2 ^ 49)) = Fin 55"
    by (simp add: jadd_double_def)
  with prod show ?thesis by simp
qed

lemma fallback_price_high:
  "jadd_double (Fin 45.0) (jmul_double (Fin (high_draws n)) (Fin 10)) = Fin 55"
  by (simp only: high_draws_def fallback_price_high_value)

text \<open>
  Claim C7 says that the price of the fallback lies within \<open>[45, 55)\<close> for every
  draw. With every draw \<open>1 - 2^(-52)\<close>, a double within \<open>[0, 1)\<close>, the price is 55.
\<close>

theorem generatePricePrediction_fallback_counterexample:
  "is_double (high_draws 2) \<and> 0 \<le> high_draws 2 \<and> high_draws 2 < 1 \<and>
   \<not> isl (generatePricePrediction high_draws 0 [] ''hours'') \<and>
   price (fst (projr (generatePricePrediction high_draws 0 [] ''hours''))) = Fin 55"
proof -
  have "generatePricePrediction high_draws 0 [] ''hours'' =
      Inr (\<lparr>color = (if jgt (Fin (high_draws 0)) (Fin 0.5) then ''green'' else ''red''),
            confidence = jadd_double (Fin 0.5)
                           (jmul_double (Fin (high_draws (0 + 1))) (double_of 0.3)),
            analysis = ''No historical data - random prediction'',
            indicators = None, price = Fin 55\<rparr>, 0 + 3)"
    by (simp only: generatePricePrediction_def list.size simp_thms if_True
        fallback_price_high)
  moreover have "0 \<le> high_draws 2" and "high_draws 2 < 1"
    by (simp_all add: high_draws_def)
  ultimately show ?thesis using is_double_high [of 2] by simp
qed

text \<open>
  Claim C7, amended. On an empty candle sequence, for every interval and every stream of
  draws that are doubles within \<open>[0, 1)\<close>, \<open>generatePricePrediction\<close> does not throw and
  returns the fallback: a price within \<open>[45, 55]\<close>, a confidence within \<open>[0.5, 0.8)\<close>, and
  the text \<open>No historical data - random prediction\<close>, which marks it as not derived from
  an analysis.
\<close>

theorem generatePricePrediction_fallback_doubles:
  assumes "\<forall>n. is_double (rnd n) \<and> 0 \<le> rnd n \<and> rnd n < 1"
  shows "\<exists>col c p. generatePricePrediction rnd k [] interval =
             Inr (\<lparr>color = col, confidence = Fin c,
                   analysis = ''No historical data - random prediction'',
                   indicators = None, price = Fin p\<rparr>, k + 3)
           \<and> col \<in> {''green'', ''red''}
           \<and> 0.5 \<le> c \<and> c < 0.8 \<and> 45 \<le> p \<and> p \<le> 55"
proof -
  from assms have a: "is_double (rnd (k + 1))" "0 \<le> rnd (k + 1)" "rnd (k + 1) < 1"
    and b: "0 \<le> rnd (k + 2)" "rnd (k + 2) < 1"
    by simp_all
  from a have "rnd (k + 1) \<le> 1 - 1 / 2 ^ 53" using double_below_one by blast
  with a(2) obtain c where
    c: "jadd_double (Fin 0.5) (jmul_double (Fin (rnd (k + 1))) (double_of 0.3)) = Fin c"
       "0.5 \<le> c" "c < 0.8"
    using fallback_confidence by blast
  from b obtain p where
    p: "jadd_double (Fin 45.0) (jmul_double (Fin (rnd (k + 2))) (Fin 10)) = Fin p"
       "45 \<le> p" "p \<le> 55"
    using fallback_price by blast
  have "generatePricePrediction rnd k [] interval =
      Inr (\<lparr>color = (if jgt (Fin (rnd k)) (Fin 0.5) then ''green'' else ''red''),
            confidence = Fin c, analysis = ''No historical data - random prediction'',
            indicators = None, price = Fin p\<rparr>, k + 3)"
    by (simp only: generatePricePrediction_def list.size simp_thms if_True c(1) p(1))
  with c(2,3) p(2,3) show ?thesis by auto
qed

theorem generatePricePrediction_fallback_doubles_witness:
  "(\<forall>n. is_double (middle_draws n) \<and> 0 \<le> middle_draws n \<and> middle_draws n < 1) \<and>
   (\<exists>col c p. generatePricePrediction middle_draws 0 [] ''hours'' =
             Inr (\<lparr>color = col, confidence = Fin c,
                   analysis = ''No historical data - random prediction'',
                   indicators = None, price = Fin p\<rparr>, 0 + 3)
           \<and> col \<in> {''green'', ''red''}
           \<and> 0.5 \<le> c \<and> c < 0.8 \<and> 45 \<le> p \<and> p \<le> 55)"
proof -
  have draws: "\<forall>n. is_double (middle_draws n) \<and> 0 \<le> middle_draws n \<and> middle_draws n < 1"
    by (simp add: middle_draws_def is_double_half_value)
  from generatePricePrediction_fallback_doubles [OF draws, of 0 "''hours''"]
  have "\<exists>col c p. generatePricePrediction middle_draws 0 [] ''hours'' =
             Inr (\<lparr>color = col, confidence = Fin c,
                   analysis = ''No historical data - random prediction'',
                   indicators = None, price = Fin p\<rparr>, 0 + 3)
           \<and> col \<in> {''green'', ''red''}
           \<and> 0.5 \<le> c \<and> c < 0.8 \<and> 45 \<le> p \<and> p \<le> 55" .
  with draws show ?thesis by (rule conjI)
qed

text \<open>
  Claim C8 asks for a price above 0, clamped below at 0.1, on every non-empty candle
  sequence. On the flat window the confidence is NaN (the unguarded division of claim C1),
  the confidence component of the price is NaN, \<open>Math.max(0.1, NaN)\<close> is NaN, and the price
  that \<open>generatePricePrediction\<close> returns is NaN whatever the draw. A price that is a
  finite number is at least 0.1 (\<open>generatePricePrediction_price_range\<close>).
\<close>

theorem generatePricePrediction_flat_window:
  "generatePricePrediction rnd k flat_window ''hours'' =
     Inr (\<lparr>color = ''red'', confidence = NaN, analysis = ''RED (NaN%): mixed signals'',
           indicators = Some \<lparr>ind_momentum = 0, ind_movingAverage = 0, ind_volume = 0,
                              ind_volatility = Fin 0, ind_supportResistance = 0\<rparr>,
           price = NaN\<rparr>, k + 1)"
proof -
  have "flat_window \<noteq> []" using length_flat_window by auto
  then show ?thesis
    by (simp add: generatePricePrediction_def Let_def analyzeTrend_flat_window)
qed

section \<open>The mock data of the test\<close>

lemma length_mockData: "length mockData = 4"
  by (simp add: mockData_def)

lemma slice_mockData: "slice_last 10 mockData = mockData"
  by (simp add: slice_last_def mockData_def)

lemma calculateMomentum_mockData:
  "calculateMomentum mockData = \<lparr>signal = 1, change = Fin (17 / 30)\<rparr>"
  by (simp add: mockData_def calculateMomentum_def sign_of_def jgt_def)

lemma calculateMovingAverageTrend_mockData:
  "calculateMovingAverageTrend mockData = \<lparr>signal = 0\<rparr>"
  by (simp add: mockData_def calculateMovingAverageTrend_def)

lemma calculateVolumeTrend_mockData:
  "calculateVolumeTrend mockData = \<lparr>signal = 0\<rparr>"
  by (simp add: mockData_def calculateVolumeTrend_def has_positive_volume_def)

text \<open>
  The last close 47.2 is 0.6 below the highest high 47.8, that is 3/236 of the close,
  less than 0.02: the price is near resistance.
\<close>

lemma findSupportResistance_mockData:
  "findSupportResistance mockData =
     Inr \<lparr>signal = - 1, resistance = Fin 47.8, support = Fin 44.5,
          distanceToResistance = Fin (3 / 236), distanceToSupport = Fin (27 / 472)\<rparr>"
  by (simp add: mockData_def findSupportResistance_def jmax_list_def jmin_list_def
      jmax_def jmin_def Let_def)

lemma analyzeTrend_mockData:
  "\<exists>c a. analyzeTrend mockData =
     Inr \<lparr>color = ''red'', confidence = c, analysis = a,
          indicators = Some \<lparr>ind_momentum = 1, ind_movingAverage = 0, ind_volume = 0,
                             ind_volatility = calculateVolatility mockData,
                             ind_supportResistance = - 1\<rparr>,
          priceChange = Fin (17 / 30)\<rparr>"
  by (simp add: analyzeTrend_def Let_def length_mockData slice_mockData
      calculateMomentum_mockData calculateMovingAverageTrend_mockData
      calculateVolumeTrend_mockData findSupportResistance_mockData)

text \<open>
  Claim C4 says that the mock window of the test, with the closes 45.5, 46.2, 46.8 and
  47.2, is analysed as green. It is not.
\<close>

theorem analyzeTrend_mockData_green_counterexample:
  "\<not> isl (analyzeTrend mockData) \<and> color (projr (analyzeTrend mockData)) \<noteq> ''green''"
  using analyzeTrend_mockData by auto

text \<open>
  Claim C4, amended. On the mock window \<open>analyzeTrend\<close> returns the colour red: the
  momentum signal is 1, the moving-average signal is 0 (fewer than 5 candles), the volume
  signal is 0, and the support/resistance signal is -1, so one bullish signal stands
  against one bearish signal and bullish does not exceed bearish.
\<close>

theorem analyzeTrend_mockData_red:
  "\<not> isl (analyzeTrend mockData) \<and>
   color (projr (analyzeTrend mockData)) = ''red'' \<and>
   map_option ind_momentum (indicators (projr (analyzeTrend mockData))) = Some 1 \<and>
   map_option ind_movingAverage (indicators (projr (analyzeTrend mockData))) = Some 0 \<and>
   map_option ind_volume (indicators (projr (analyzeTrend mockData))) = Some 0 \<and>
   map_option ind_supportResistance (indicators (projr (analyzeTrend mockData))) = Some (- 1)"
  using analyzeTrend_mockData by auto

section \<open>Claims about the interval\<close>

text \<open>
  An interval that is neither a key of the literal nor a name inherited from
  \<open>Object.prototype\<close> gets the hourly move 0.025.
\<close>

lemma volatilityMultiplier_unknown:
  assumes "interval \<notin> {''hours'', ''days'', ''weeks''}"
    and "interval \<notin> set object_prototype_keys"
  shows "toNumber (js_or (property volatilityMultiplier interval) (Num (Fin 0.025))) = Fin 0.025"
  using assms by (simp add: property_def volatilityMultiplier_def js_or_def)

lemma volatilityMultiplier_constructor:
  "property volatilityMultiplier ''constructor'' = Obj"
  by (simp add: property_def volatilityMultiplier_def object_prototype_keys_def)

text \<open>
  Claim C10 says that every interval outside \<open>hours\<close>, \<open>days\<close> and \<open>weeks\<close> falls back to
  the move 0.025. The interval \<open>constructor\<close> names a property that the literal inherits:
  the lookup returns a function, which is truthy, so \<open>||\<close> keeps it, the product with the
  close is NaN, and so is the predicted price. The call still returns.
\<close>

theorem generatePricePrediction_constructor:
  "js_or (property volatilityMultiplier ''constructor'') (Num (Fin 0.025)) \<noteq> Num (Fin 0.025) \<and>
   \<not> isl (generatePricePrediction rnd k mockData ''constructor'') \<and>
   price (fst (projr (generatePricePrediction rnd k mockData ''constructor''))) = NaN"
proof -
  obtain t where t: "analyzeTrend mockData = Inr t"
    using analyzeTrend_total by blast
  have "mockData \<noteq> []" using length_mockData by auto
  then have "\<exists>p. generatePricePrediction rnd k mockData ''constructor'' = Inr (p, k + 1)
                \<and> price p = NaN"
    by (simp add: generatePricePrediction_def Let_def t volatilityMultiplier_constructor
        js_or_def)
  then show ?thesis
    by (auto simp add: volatilityMultiplier_constructor js_or_def)
qed

section \<open>Claims about the CSV file\<close>

text \<open>The file is the header line and one line per record, in the order of the records.\<close>

lemma predictionsToCSV_lines:
  "predictionsToCSV other predictions =
     join [CHR 0x0A]
       (''timestamp,color,confidence,price'' #
        map (\<lambda>p. numberToString other (timestamp p) @ '','' @ color p @ '',''
                  @ numberToString other (confidence p) @ '',''
                  @ numberToString other (price p)) predictions)"
  by (simp add: predictionsToCSV_def)

text \<open>
  Claim C5 asks for the price with exactly 2 decimal places, as the sample of the README
  shows it (\<open>45.50\<close>) and as \<open>previewPredictions\<close> prints it with \<open>toFixed(2)\<close>. The
  serializer prints the number itself, and the number 45.5 prints as \<open>45.5\<close>.
\<close>

theorem predictionsToCSV_readme_record:
  "predictionsToCSV other [readme_record] =
     ''timestamp,color,confidence,price'' @ [CHR 0x0A] @ ''1704067200,red,0.85,45.5''"
  by (simp add: predictionsToCSV_def readme_record_def hundredths_string_def digits.simps
      digit_char_def char_of_def bit_Suc_0_iff)

section \<open>Claims about the normalised data\<close>

lemma set_normalizeOHLCData:
  "c \<in> set (normalizeOHLCData ohlcData) \<Longrightarrow> volume c = Some (Fin 0)"
  by (auto simp add: normalizeOHLCData_def)

lemma calculateVolumeTrend_no_volume:
  assumes "\<forall>c \<in> set data. volume c = Some (Fin 0)"
  shows "calculateVolumeTrend data = \<lparr>signal = 0\<rparr>"
proof -
  from assms have "\<not> list_ex has_positive_volume data"
    by (auto simp add: list_ex_iff has_positive_volume_def)
  then show ?thesis by (simp add: calculateVolumeTrend_def)
qed

text \<open>
  Claim C9. Every candle that \<open>normalizeOHLCData\<close> produces has the volume 0, and its
  output is sorted by timestamp. So on every window drawn from the normalised data
  \<open>calculateVolumeTrend\<close> returns the signal 0, and the volume indicator of an analysis of
  the normalised data is 0.
\<close>

theorem normalizeOHLCData_no_volume:
  "(\<forall>c \<in> set (normalizeOHLCData ohlcData). volume c = Some (Fin 0)) \<and>
   sorted (map candle.timestamp (normalizeOHLCData ohlcData)) \<and>
   (\<forall>window. set window \<subseteq> set (normalizeOHLCData ohlcData) \<longrightarrow>
      calculateVolumeTrend window = \<lparr>signal = 0\<rparr>) \<and>
   (\<forall>t i. analyzeTrend (normalizeOHLCData ohlcData) = Inr t \<and> indicators t = Some i \<longrightarrow>
      ind_volume i = 0)"
proof (intro conjI allI impI ballI)
  fix c
  assume "c \<in> set (normalizeOHLCData ohlcData)"
  then show "volume c = Some (Fin 0)" by (rule set_normalizeOHLCData)
next
  show "sorted (map candle.timestamp (normalizeOHLCData ohlcData))"
    by (simp add: normalizeOHLCData_def)
next
  fix window
  assume "set window \<subseteq> set (normalizeOHLCData ohlcData)"
  then have "\<forall>c \<in> set window. volume c = Some (Fin 0)"
    using set_normalizeOHLCData by blast
  then show "calculateVolumeTrend window = \<lparr>signal = 0\<rparr>"
    by (rule calculateVolumeTrend_no_volume)
next
  fix t i
  let ?data = "normalizeOHLCData ohlcData"
  assume run: "analyzeTrend ?data = Inr t \<and> indicators t = Some i"
  have "set (slice_last 10 ?data) \<subseteq> set ?data"
    by (simp add: slice_last_def set_drop_subset)
  then have "\<forall>c \<in> set (slice_last 10 ?data). volume c = Some (Fin 0)"
    using set_normalizeOHLCData by blast
  then have quiet: "calculateVolumeTrend (slice_last 10 ?data) = \<lparr>signal = 0\<rparr>"
    by (rule calculateVolumeTrend_no_volume)
  from run show "ind_volume i = 0"
    by (auto simp add: analyzeTrend_def Let_def quiet split: if_splits sum.splits)
qed

theorem normalizeOHLCData_no_volume_witness:
  "map candle.timestamp (normalizeOHLCData ohlc_sample) = [1704067200, 1704070800, 1704074400] \<and>
   map volume (normalizeOHLCData ohlc_sample) = [Some (Fin 0), Some (Fin 0), Some (Fin 0)] \<and>
   sorted (map candle.timestamp (normalizeOHLCData ohlc_sample)) \<and>
   set (take 2 (normalizeOHLCData ohlc_sample)) \<subseteq> set (normalizeOHLCData ohlc_sample) \<and>
   calculateVolumeTrend (take 2 (normalizeOHLCData ohlc_sample)) = \<lparr>signal = 0\<rparr>"
proof -
  have ts: "map candle.timestamp (normalizeOHLCData ohlc_sample)
              = [1704067200, 1704070800, 1704074400]"
    by (simp add: normalizeOHLCData_def ohlc_sample_def)
  have sub: "set (take 2 (normalizeOHLCData ohlc_sample)) \<subseteq> set (normalizeOHLCData ohlc_sample)"
    by (rule set_take_subset)
  note claim = normalizeOHLCData_no_volume [of ohlc_sample]
  from claim have vols: "\<forall>c \<in> set (normalizeOHLCData ohlc_sample). volume c = Some (Fin 0)"
    by blast
  from ts have "length (normalizeOHLCData ohlc_sample) = 3"
    by (metis length_map length_Cons list.size(3) numeral_3_eq_3)
  then obtain a b c where abc: "normalizeOHLCData ohlc_sample = [a, b, c]"
    by (cases "normalizeOHLCData ohlc_sample"; cases "tl (normalizeOHLCData ohlc_sample)";
        cases "tl (tl (normalizeOHLCData ohlc_sample))") auto
  with vols have "map volume (normalizeOHLCData ohlc_sample)
                    = [Some (Fin 0), Some (Fin 0), Some (Fin 0)]"
    by simp
  moreover from claim have "sorted (map candle.timestamp (normalizeOHLCData ohlc_sample))"
    by blast
  moreover from claim sub
  have "calculateVolumeTrend (take 2 (normalizeOHLCData ohlc_sample)) = \<lparr>signal = 0\<rparr>"
    by blast
  ultimately show ?thesis using ts sub by simp
qed

end
